theory Spec2Isabelle
  imports Complex_Main
begin

section \<open>JavaScript values used by the field types\<close>

text \<open>
  A value of TypeScript type \<open>T | null | undefined\<close>.
\<close>

datatype 'a js = Undefined | Null | Val 'a

text \<open>
  A JavaScript number. Every finite double is a rational; \<open>-0\<close> and \<open>+0\<close> are both
  \<open>Num 0\<close> (no operation used below tells them apart: comparisons, \<open>Number.isInteger\<close>
  and the SameValueZero equality of \<open>Set\<close> all identify them).
\<close>

datatype number = Num rat | NumNaN | PosInfinity | NegInfinity

text \<open>\<open>Number.isInteger\<close>.\<close>

definition isInteger :: "number \<Rightarrow> bool" where
  "isInteger n = (case n of Num q \<Rightarrow> of_int \<lfloor>q\<rfloor> = q | _ \<Rightarrow> False)"

text \<open>The operators \<open><\<close> and \<open>></\<close> on numbers: any comparison with NaN is false.\<close>

definition num_lt :: "number \<Rightarrow> number \<Rightarrow> bool" where
  "num_lt a b =
     (case (a, b) of
        (Num x, Num y) \<Rightarrow> x < y
      | (Num x, PosInfinity) \<Rightarrow> True
      | (NegInfinity, Num y) \<Rightarrow> True
      | (NegInfinity, PosInfinity) \<Rightarrow> True
      | _ \<Rightarrow> False)"

definition num_gt :: "number \<Rightarrow> number \<Rightarrow> bool" where
  "num_gt a b = num_lt b a"

text \<open>
  A \<open>Decimal\<close> object of the decimal library: an exact decimal fraction, NaN or an
  infinity, with the methods the decimal field calls.
\<close>

datatype Decimal = Dec rat | DecNaN | DecInfinity | DecNegInfinity

definition isFinite :: "Decimal \<Rightarrow> bool" where
  "isFinite d = (case d of Dec q \<Rightarrow> True | _ \<Rightarrow> False)"

definition lessThan_Decimal :: "Decimal \<Rightarrow> Decimal \<Rightarrow> bool" where
  "lessThan_Decimal a b =
     (case (a, b) of
        (Dec x, Dec y) \<Rightarrow> x < y
      | (Dec x, DecInfinity) \<Rightarrow> True
      | (DecNegInfinity, Dec y) \<Rightarrow> True
      | (DecNegInfinity, DecInfinity) \<Rightarrow> True
      | _ \<Rightarrow> False)"

definition greaterThan_Decimal :: "Decimal \<Rightarrow> Decimal \<Rightarrow> bool" where
  "greaterThan_Decimal a b = lessThan_Decimal b a"


section \<open>The schema-definition layer shared by the field types\<close>

datatype provider = Sqlite | Postgresql

record field_meta =
  listKey :: string
  fieldKey :: string
  provider :: provider

datatype operation = Create | Update

text \<open>
  The argument of a \<open>validateInput\<close> hook: the entry of \<open>resolvedData\<close> under the field's
  key and the operation. \<open>addValidationError\<close> is modelled by the list of messages the hook
  returns, in the order they are added.
\<close>

record 'v validate_args =
  resolvedValue :: "'v js"
  operation :: operation

datatype 'v validation_error =
    IsRequired string
  | NotPossibleValue 'v string
  | MustBeGreaterOrEqual string 'v
  | MustBeLessOrEqual string 'v
  | FromUserHook string

datatype isIndexed = IndexedBool bool | IndexedUnique

datatype index = Index | Unique

text \<open>
  The part of a field configuration both field types read: \<open>CommonFieldConfig\<close>'s
  \<open>label\<close> and \<open>hooks.validateInput\<close>, and the options \<open>isNullable\<close>,
  \<open>graphql.create.isNonNull\<close>, \<open>graphql.read.isNonNull\<close>, \<open>isIndexed\<close> and
  \<open>validation.isRequired\<close> that both configuration types declare. \<open>None\<close> is
  \<open>undefined\<close>; an optional chain such as \<open>validation?.isRequired\<close> is one optional value.
  The other properties of \<open>CommonFieldConfig\<close> (\<open>access\<close>, \<open>ui\<close> and the other hooks) are read
  by the imported helpers only, which are parameters below.
\<close>

record 'v field_config =
  label :: "string option"
  hooks_validateInput :: "('v validate_args \<Rightarrow> 'v validation_error list) option"
  isNullable :: "bool option"
  graphql_create_isNonNull :: "bool option"
  graphql_read_isNonNull :: "bool option"
  isIndexed :: "isIndexed option"
  validation_isRequired :: "bool option"

text \<open>
  What the field types import from files that are not part of the excerpt:
  \<open>humanize\<close> (lib/utils), \<open>assertReadIsNonNullAllowed\<close> and
  \<open>assertCreateIsNonNullAllowed\<close> (non-null-graphql; \<open>True\<close> when the assertion passes,
  \<open>False\<close> when it throws), \<open>inflection.classify\<close> and the \<open>Decimal\<close> constructor on a
  string (\<open>None\<close> when it throws).
\<close>

record 'v deps =
  humanize :: "string \<Rightarrow> string"
  assertReadIsNonNullAllowed :: "field_meta \<Rightarrow> 'v field_config \<Rightarrow> bool"
  assertCreateIsNonNullAllowed :: "field_meta \<Rightarrow> 'v field_config \<Rightarrow> bool"
  classify :: "string \<Rightarrow> string"
  newDecimal :: "string \<Rightarrow> Decimal option"

datatype config_error =
    SqliteNotSupported
  | ScaleNotInteger
  | PrecisionNotInteger
  | ScaleLargerThanPrecision
  | NotValidDecimal string string
  | NotFinite string string
  | MaxLessThanMin
  | ReadIsNonNullNotAllowed
  | CreateIsNonNullNotAllowed
  | DuplicateOptions
  | OutsideInt32Range

datatype gql_type =
    GInt | GString | GDecimal
  | GEnum string "string list"
  | NonNull gql_type

datatype mode = Required | Optional

datatype 'd db_field =
    ScalarField mode string "(number \<times> number) option" "index option" "'d option"
  | EnumField mode "string list" string "index option" "'d option"

record 'v arg =
  arg_type :: gql_type
  arg_defaultValue :: "'v option"

text \<open>
  What a field type hands to \<open>fieldType(dbField)(...)\<close>, as far as the properties below
  read it: the database field, the \<open>validateInput\<close> hook, the create input (argument and
  resolver), the update argument's type and the output type. The constructors of the
  GraphQL schema library (\<open>graphql.arg\<close>, \<open>graphql.nonNull\<close>, \<open>graphql.enum\<close>,
  \<open>graphql.field\<close>) are taken to return normally.
\<close>

record ('v, 'd) field_impl =
  dbField :: "'d db_field"
  validateInput :: "'v validate_args \<Rightarrow> 'v validation_error list"
  create_arg :: "'v arg"
  create_resolve :: "'v js \<Rightarrow> 'v js"
  update_arg_type :: gql_type
  output_type :: gql_type

definition user_validateInput ::
  "'v field_config \<Rightarrow> 'v validate_args \<Rightarrow> 'v validation_error list" where
  "user_validateInput config args =
     (case hooks_validateInput config of None \<Rightarrow> [] | Some h \<Rightarrow> h args)"

definition db_index :: "isIndexed option \<Rightarrow> index option" where
  "db_index i =
     (case i of
        Some (IndexedBool True) \<Rightarrow> Some Index
      | Some IndexedUnique \<Rightarrow> Some Unique
      | _ \<Rightarrow> None)"

definition db_mode :: "'v field_config \<Rightarrow> mode" where
  "db_mode config = (if isNullable config = Some False then Required else Optional)"

definition field_label :: "'v deps \<Rightarrow> 'v field_config \<Rightarrow> field_meta \<Rightarrow> string" where
  "field_label deps config meta =
     (case label config of Some l \<Rightarrow> l | None \<Rightarrow> humanize deps (fieldKey meta))"


section \<open>The select field\<close>

datatype string_option = Plain string | Labelled string string

datatype select_type = TypeString | TypeEnum

text \<open>
  The two alternatives of \<open>SelectFieldConfig\<close>: string options (plain strings or
  label/value pairs) with an optional \<open>type\<close> of \<open>'string'\<close> or \<open>'enum'\<close>, or numeric options
  (label/value pairs) with \<open>type: 'integer'\<close>; each with its optional \<open>defaultValue\<close>.
\<close>

datatype select_options =
    StringOptions "string_option list" "select_type option" "string option"
  | IntegerOptions "(string \<times> number) list" "number option"

datatype select_value = StringValue string | NumberValue number

datatype displayMode = Select | SegmentedControl

record select_config =
  common :: "select_value field_config"
  ui_displayMode :: "displayMode option"
  options :: select_options

definition MAX_INT :: number where
  "MAX_INT = Num 2147483647"

definition MIN_INT :: number where
  "MIN_INT = Num (- 2147483648)"

definition select_defaultValue :: "select_config \<Rightarrow> select_value option" where
  "select_defaultValue cfg =
     (case options cfg of
        StringOptions os t d \<Rightarrow> map_option StringValue d
      | IntegerOptions os d \<Rightarrow> map_option NumberValue d)"

text \<open>
  The hook built by \<open>commonConfig\<close>; \<open>vals\<close> is the \<open>Set\<close> of option values it closes
  over.
\<close>

definition select_validateInput ::
  "select_value deps \<Rightarrow> select_config \<Rightarrow> field_meta \<Rightarrow> select_value list \<Rightarrow>
   select_value validate_args \<Rightarrow> select_value validation_error list" where
  "select_validateInput deps cfg meta vals args =
     (let fieldLabel = field_label deps (common cfg) meta;
          v = resolvedValue args
      in (case v of
            Val x \<Rightarrow> (if x \<in> set vals then [] else [NotPossibleValue x fieldLabel])
          | _ \<Rightarrow> [])
         @ (if validation_isRequired (common cfg) = Some True
               \<and> (v = Null \<or> (v = Undefined \<and> operation args = Create))
            then [IsRequired fieldLabel] else [])
         @ user_validateInput (common cfg) args)"

text \<open>
  \<open>commonConfig\<close>: the size of the \<open>Set\<close> of the option values is compared with the number
  of options; on success the hook is returned.
\<close>

definition commonConfig ::
  "select_value deps \<Rightarrow> select_config \<Rightarrow> field_meta \<Rightarrow> (string \<times> select_value) list \<Rightarrow>
   config_error + (select_value validate_args \<Rightarrow> select_value validation_error list)" where
  "commonConfig deps cfg meta opts =
     (let vals = remdups (map snd opts)
      in if length vals \<noteq> length opts then Inl DuplicateOptions
         else Inr (select_validateInput deps cfg meta vals))"

definition resolveCreate :: "select_config \<Rightarrow> select_value js \<Rightarrow> select_value js" where
  "resolveCreate cfg v =
     (if v = Undefined
      then (case select_defaultValue cfg of Some d \<Rightarrow> Val d | None \<Rightarrow> Null)
      else v)"

definition output_of :: "select_config \<Rightarrow> gql_type \<Rightarrow> gql_type" where
  "output_of cfg t =
     (if isNullable (common cfg) = Some False \<and> graphql_read_isNonNull (common cfg) = Some True
      then NonNull t else t)"

definition create :: "select_config \<Rightarrow> gql_type \<Rightarrow> select_value arg" where
  "create cfg t =
     (let isNonNull =
            (isNullable (common cfg) = Some False
             \<and> graphql_read_isNonNull (common cfg) = Some True)
      in \<lparr> arg_type = (if isNonNull then NonNull t else t),
           arg_defaultValue = (if isNonNull then select_defaultValue cfg else None) \<rparr>)"

definition normalise_option :: "select_value deps \<Rightarrow> string_option \<Rightarrow> string \<times> string" where
  "normalise_option deps opt =
     (case opt of Plain s \<Rightarrow> (humanize deps s, s) | Labelled l v \<Rightarrow> (l, v))"

definition select_impl ::
  "select_config \<Rightarrow> select_value db_field \<Rightarrow> gql_type \<Rightarrow>
   (select_value validate_args \<Rightarrow> select_value validation_error list) \<Rightarrow>
   (select_value, select_value) field_impl" where
  "select_impl cfg db t hook =
     \<lparr> dbField = db,
       validateInput = hook,
       create_arg = create cfg t,
       create_resolve = resolveCreate cfg,
       update_arg_type = t,
       output_type = output_of cfg t \<rparr>"

definition select ::
  "select_value deps \<Rightarrow> select_config \<Rightarrow> field_meta \<Rightarrow>
   config_error + (select_value, select_value) field_impl" where
  "select deps cfg meta =
     (let config = common cfg;
          m = db_mode config;
          idx = db_index (isIndexed config);
          dflt = select_defaultValue cfg
      in if isNullable config = Some False \<and> \<not> assertReadIsNonNullAllowed deps meta config
         then Inl ReadIsNonNullNotAllowed
         else if \<not> assertCreateIsNonNullAllowed deps meta config
         then Inl CreateIsNonNullNotAllowed
         else
           (case options cfg of
              IntegerOptions os d \<Rightarrow>
                if list_ex (\<lambda>(l, v). \<not> isInteger v \<or> num_gt v MAX_INT \<or> num_lt v MIN_INT) os
                then Inl OutsideInt32Range
                else
                  (case commonConfig deps cfg meta (map (\<lambda>(l, v). (l, NumberValue v)) os) of
                     Inl e \<Rightarrow> Inl e
                   | Inr hook \<Rightarrow>
                       Inr (select_impl cfg (ScalarField m ''Int'' None idx dflt) GInt hook))
            | StringOptions os t d \<Rightarrow>
                (let opts = map (normalise_option deps) os
                 in if t = Some TypeEnum
                    then
                      (let enumName = listKey meta @ classify deps (fieldKey meta) @ ''Type'';
                           graphQLType = GEnum enumName (map snd opts)
                       in case commonConfig deps cfg meta
                                 (map (\<lambda>(l, v). (l, StringValue v)) opts) of
                            Inl e \<Rightarrow> Inl e
                          | Inr hook \<Rightarrow>
                              Inr (select_impl cfg
                                     (if provider meta = Sqlite
                                      then ScalarField m ''String'' None idx dflt
                                      else EnumField m (map snd opts) enumName idx dflt)
                                     graphQLType hook))
                    else
                      (case commonConfig deps cfg meta
                              (map (\<lambda>(l, v). (l, StringValue v)) opts) of
                         Inl e \<Rightarrow> Inl e
                       | Inr hook \<Rightarrow>
                           Inr (select_impl cfg (ScalarField m ''String'' None idx dflt)
                                  GString hook)))))"


section \<open>The decimal field\<close>

record decimal_config =
  dcommon :: "Decimal field_config"
  validation_min :: "string option"
  validation_max :: "string option"
  precision :: "number option"
  scale :: "number option"
  defaultValue :: "string option"

definition parseDecimalValueOption ::
  "Decimal deps \<Rightarrow> field_meta \<Rightarrow> string \<Rightarrow> string \<Rightarrow> config_error + Decimal" where
  "parseDecimalValueOption deps meta val name =
     (case newDecimal deps val of
        None \<Rightarrow> Inl (NotValidDecimal name val)
      | Some d \<Rightarrow> if \<not> isFinite d then Inl (NotFinite name val) else Inr d)"

text \<open>
  The pattern \<open>x === undefined ? undefined : parseDecimalValueOption(meta, x, name)\<close>.
\<close>

definition parse_if_defined ::
  "Decimal deps \<Rightarrow> field_meta \<Rightarrow> string option \<Rightarrow> string \<Rightarrow> config_error + Decimal option" where
  "parse_if_defined deps meta x name =
     (case x of
        None \<Rightarrow> Inr None
      | Some s \<Rightarrow>
          (case parseDecimalValueOption deps meta s name of
             Inl e \<Rightarrow> Inl e
           | Inr d \<Rightarrow> Inr (Some d)))"

text \<open>
  The hook of the decimal field; \<open>minD\<close> and \<open>maxD\<close> are the constants \<open>min\<close> and \<open>max\<close>
  it closes over.
\<close>

definition decimal_validateInput ::
  "Decimal deps \<Rightarrow> decimal_config \<Rightarrow> field_meta \<Rightarrow> Decimal option \<Rightarrow> Decimal option \<Rightarrow>
   Decimal validate_args \<Rightarrow> Decimal validation_error list" where
  "decimal_validateInput deps cfg meta minD maxD args =
     (let fieldLabel = field_label deps (dcommon cfg) meta;
          val = resolvedValue args
      in (if val = Null \<and> validation_isRequired (dcommon cfg) = Some True
          then [IsRequired fieldLabel] else [])
         @ (case val of
              Val x \<Rightarrow>
                (case minD of
                   Some lo \<Rightarrow>
                     if lessThan_Decimal x lo then [MustBeGreaterOrEqual fieldLabel lo] else []
                 | None \<Rightarrow> [])
                @ (case maxD of
                     Some hi \<Rightarrow>
                       if greaterThan_Decimal x hi then [MustBeLessOrEqual fieldLabel hi] else []
                   | None \<Rightarrow> [])
            | _ \<Rightarrow> [])
         @ user_validateInput (dcommon cfg) args)"

definition decimal_resolve :: "Decimal option \<Rightarrow> Decimal js \<Rightarrow> Decimal js" where
  "decimal_resolve parsedDefaultValue val =
     (if val = Undefined
      then (case parsedDefaultValue of Some d \<Rightarrow> Val d | None \<Rightarrow> Null)
      else val)"

definition decimal ::
  "Decimal deps \<Rightarrow> decimal_config \<Rightarrow> field_meta \<Rightarrow>
   config_error + (Decimal, string) field_impl" where
  "decimal deps cfg meta =
     (let config = dcommon cfg;
          prec = (case precision cfg of None \<Rightarrow> Num 18 | Some p \<Rightarrow> p);
          sc = (case scale cfg of None \<Rightarrow> Num 4 | Some s \<Rightarrow> s)
      in if provider meta = Sqlite then Inl SqliteNotSupported
         else if \<not> isInteger sc then Inl ScaleNotInteger
         else if \<not> isInteger prec then Inl PrecisionNotInteger
         else if num_gt sc prec then Inl ScaleLargerThanPrecision
         else
           (case parse_if_defined deps meta (validation_max cfg) ''validation.max'' of
              Inl e \<Rightarrow> Inl e
            | Inr maxD \<Rightarrow>
           (case parse_if_defined deps meta (validation_max cfg) ''validation.max'' of
              Inl e \<Rightarrow> Inl e
            | Inr minD \<Rightarrow>
           if (case (minD, maxD) of
                 (Some lo, Some hi) \<Rightarrow> lessThan_Decimal hi lo
               | _ \<Rightarrow> False)
           then Inl MaxLessThanMin
           else
           (case parse_if_defined deps meta (defaultValue cfg) ''defaultValue'' of
              Inl e \<Rightarrow> Inl e
            | Inr parsedDefaultValue \<Rightarrow>
           if isNullable config = Some False \<and> \<not> assertReadIsNonNullAllowed deps meta config
           then Inl ReadIsNonNullNotAllowed
           else if \<not> assertCreateIsNonNullAllowed deps meta config
           then Inl CreateIsNonNullNotAllowed
           else
             Inr \<lparr> dbField =
                     ScalarField (db_mode config) ''Decimal'' (Some (prec, sc))
                       (db_index (isIndexed config)) (defaultValue cfg),
                   validateInput = decimal_validateInput deps cfg meta minD maxD,
                   create_arg =
                     \<lparr> arg_type =
                         (if graphql_create_isNonNull config = Some True
                          then NonNull GDecimal else GDecimal),
                       arg_defaultValue =
                         (if graphql_create_isNonNull config = Some True
                          then parsedDefaultValue else None) \<rparr>,
                   create_resolve = decimal_resolve parsedDefaultValue,
                   update_arg_type = GDecimal,
                   output_type =
                     (if isNullable config = Some False
                         \<and> graphql_read_isNonNull config = Some True
                      then NonNull GDecimal else GDecimal) \<rparr>))))"

text \<open>
  The value of every entry of \<open>config.options\<close>, in order: a plain string is its own
  value.
\<close>

definition option_values :: "select_config \<Rightarrow> select_value list" where
  "option_values cfg =
     (case options cfg of
        StringOptions os t d \<Rightarrow>
          map (\<lambda>opt. case opt of Plain s \<Rightarrow> StringValue s | Labelled l v \<Rightarrow> StringValue v) os
      | IntegerOptions os d \<Rightarrow> map (\<lambda>(l, v). NumberValue v) os)"


section \<open>List access control around the generated CRUD resolvers\<close>

text \<open>
  The resolvers that apply list access control are not part of the excerpt; only the
  access-control reference and the integration tests are. The definitions of this section
  are modelled from those two.
\<close>

text \<open>
  Modelled from the spec: an item of a list as the resolvers see it: its unique identifier
  and its field values.
\<close>

record item =
  item_id :: nat
  item_fields :: "(string \<times> string) list"

text \<open>
  Modelled from the spec: the items a list holds in the database, in the order queries
  return them.
\<close>

type_synonym items = "item list"

text \<open>
  Modelled from the spec: the operation an access-control function is asked about, the
  \<open>operation\<close> argument of the reference.
\<close>

datatype access_op = OpQuery | OpCreate | OpUpdate | OpDelete

text \<open>
  Modelled from the spec: the name of an operation as it is written in a tag.
\<close>

definition op_name :: "access_op \<Rightarrow> string" where
  "op_name op =
     (case op of OpQuery \<Rightarrow> ''query'' | OpCreate \<Rightarrow> ''create''
               | OpUpdate \<Rightarrow> ''update'' | OpDelete \<Rightarrow> ''delete'')"

text \<open>
  Modelled from the spec: the value an access-control function returns, which the missing
  resolvers inspect. The reference requires \<open>true\<close> or \<open>false\<close> from
  an operation-level function; the tests make it return a filter object instead.
\<close>

datatype returned =
    ReturnsBool bool
  | ReturnsFilter "item \<Rightarrow> bool"
  | ReturnsString string
  | ReturnsNumber int
  | ReturnsNull
  | ReturnsUndefined

text \<open>
  Modelled from the spec: JavaScript's \<open>typeof\<close> on a returned value, which the
  access-return error of the tests reports.
\<close>

definition typeof :: "returned \<Rightarrow> string" where
  "typeof v =
     (case v of
        ReturnsBool b \<Rightarrow> ''boolean''
      | ReturnsFilter f \<Rightarrow> ''object''
      | ReturnsString s \<Rightarrow> ''string''
      | ReturnsNumber n \<Rightarrow> ''number''
      | ReturnsNull \<Rightarrow> ''object''
      | ReturnsUndefined \<Rightarrow> ''undefined'')"

text \<open>
  Modelled from the spec: what a filter-level function returns: a GraphQL filter (here the
  predicate on items it denotes) or a boolean that matches or excludes all items.
\<close>

datatype filter_returned = FilterBool bool | Filter "item \<Rightarrow> bool"

text \<open>
  Modelled from the spec: whether an item passes what a filter-level function returned.
\<close>

definition matches :: "filter_returned \<Rightarrow> item \<Rightarrow> bool" where
  "matches f i = (case f of FilterBool b \<Rightarrow> b | Filter p \<Rightarrow> p i)"

text \<open>
  Modelled from the spec: the generated GraphQL fields of a list that the missing resolvers
  serve.
\<close>

datatype resolver =
    FindOne | FindMany | Count
  | CreateOne | UpdateOne | DeleteOne
  | CreateMany | UpdateMany | DeleteMany

text \<open>
  Modelled from the spec: the \<open>access\<close> property of a list configuration, with
  the list's key and the names of its generated GraphQL fields. \<open>'s\<close> stands for
  the \<open>session\<close> and \<open>context\<close> arguments. Filter access exists for
  query, update and delete; item access for create (input data), update (input data and
  existing item) and delete (existing item).
\<close>

record 's list_config =
  key :: string
  field_name :: "resolver \<Rightarrow> string"
  access_operation :: "access_op \<Rightarrow> 's \<Rightarrow> returned"
  access_filter :: "access_op \<Rightarrow> 's \<Rightarrow> filter_returned"
  access_item_create :: "'s \<Rightarrow> (string \<times> string) list \<Rightarrow> bool"
  access_item_update :: "'s \<Rightarrow> (string \<times> string) list \<Rightarrow> item \<Rightarrow> bool"
  access_item_delete :: "'s \<Rightarrow> item \<Rightarrow> bool"

text \<open>
  Modelled from the spec: a segment of the path of a GraphQL error, a field name or a
  position in a list.
\<close>

datatype path_segment = PathField string | Position nat

text \<open>
  Modelled from the spec: the two kinds of GraphQL error the tests and the reference name,
  each with its path; an access-return error lists the tag of the function and the type of
  what it returned.
\<close>

datatype gql_error =
    AccessDeniedError "path_segment list"
  | AccessReturnError "path_segment list" "(string \<times> string) list"

text \<open>
  Modelled from the spec: the path of an error.
\<close>

definition error_path :: "gql_error \<Rightarrow> path_segment list" where
  "error_path e = (case e of AccessDeniedError p \<Rightarrow> p | AccessReturnError p ts \<Rightarrow> p)"

text \<open>
  Modelled from the spec: whether an error is an access denied error.
\<close>

definition is_access_denied :: "gql_error \<Rightarrow> bool" where
  "is_access_denied e = (case e of AccessDeniedError p \<Rightarrow> True | _ \<Rightarrow> False)"

text \<open>
  Modelled from the spec: the part of a GraphQL response that belongs to one field: its data
  (\<open>None\<close> is \<open>null\<close>) and its errors.
\<close>

record 'a response =
  data :: "'a option"
  errors :: "gql_error list"

text \<open>
  Modelled from the spec: the tag \<open><ListKey>.access.operation.<operation>\<close> of
  an operation-level function.
\<close>

definition operation_tag :: "'s list_config \<Rightarrow> access_op \<Rightarrow> string" where
  "operation_tag l op = key l @ ''.access.operation.'' @ op_name op"

text \<open>
  Modelled from the spec: the operation-level check of the missing resolvers. A boolean
  decides; anything else is reported as an access-return error with the function's tag and
  the type of the value.
\<close>

definition check_operation ::
  "'s list_config \<Rightarrow> 's \<Rightarrow> access_op \<Rightarrow> path_segment list \<Rightarrow> gql_error + bool" where
  "check_operation l s op path =
     (case access_operation l op s of
        ReturnsBool b \<Rightarrow> Inr b
      | v \<Rightarrow> Inl (AccessReturnError path [(operation_tag l op, typeof v)]))"

text \<open>
  Modelled from the spec: the item a mutation or a single-item query operates on, found with
  the access filter combined with the unique identifier given to the operation.
\<close>

definition find_item :: "'s list_config \<Rightarrow> 's \<Rightarrow> access_op \<Rightarrow> nat \<Rightarrow> items \<Rightarrow> item option" where
  "find_item l s op ident db =
     find (\<lambda>i. item_id i = ident \<and> matches (access_filter l op s) i) db"

text \<open>
  Modelled from the spec: the identifier the database gives a new item.
\<close>

definition next_id :: "items \<Rightarrow> nat" where
  "next_id db = Suc (fold max (map item_id db) 0)"

text \<open>
  Modelled from the spec: the field values of an item after an update: the input's values
  replace the old ones of the same fields.
\<close>

definition merge_fields ::
  "(string \<times> string) list \<Rightarrow> (string \<times> string) list \<Rightarrow> (string \<times> string) list" where
  "merge_fields input old = input @ filter (\<lambda>(k, v). k \<notin> fst ` set input) old"

text \<open>
  Modelled from the spec: the create mutation of the missing resolvers. Operation access,
  then item access on the input; when denied it returns \<open>null\<close> with an access
  denied error and stores nothing.
\<close>

definition createOne ::
  "'s list_config \<Rightarrow> 's \<Rightarrow> path_segment list \<Rightarrow> (string \<times> string) list \<Rightarrow> items \<Rightarrow>
   items \<times> item response" where
  "createOne l s path input db =
     (case check_operation l s OpCreate path of
        Inl e \<Rightarrow> (db, \<lparr> data = None, errors = [e] \<rparr>)
      | Inr allowed \<Rightarrow>
          if \<not> allowed then (db, \<lparr> data = None, errors = [AccessDeniedError path] \<rparr>)
          else if \<not> access_item_create l s input
          then (db, \<lparr> data = None, errors = [AccessDeniedError path] \<rparr>)
          else
            (let new = \<lparr> item_id = next_id db, item_fields = input \<rparr>
             in (db @ [new], \<lparr> data = Some new, errors = [] \<rparr>)))"

text \<open>
  Modelled from the spec: the update mutation of the missing resolvers. Operation access,
  the filtered lookup of the item, then item access; when denied it returns
  \<open>null\<close> with an access denied error and changes nothing.
\<close>

definition updateOne ::
  "'s list_config \<Rightarrow> 's \<Rightarrow> path_segment list \<Rightarrow> nat \<times> (string \<times> string) list \<Rightarrow> items \<Rightarrow>
   items \<times> item response" where
  "updateOne l s path arg db =
     (case check_operation l s OpUpdate path of
        Inl e \<Rightarrow> (db, \<lparr> data = None, errors = [e] \<rparr>)
      | Inr allowed \<Rightarrow>
          if \<not> allowed then (db, \<lparr> data = None, errors = [AccessDeniedError path] \<rparr>)
          else
            (case find_item l s OpUpdate (fst arg) db of
               None \<Rightarrow> (db, \<lparr> data = None, errors = [AccessDeniedError path] \<rparr>)
             | Some old \<Rightarrow>
                 if \<not> access_item_update l s (snd arg) old
                 then (db, \<lparr> data = None, errors = [AccessDeniedError path] \<rparr>)
                 else
                   (let new = old \<lparr> item_fields := merge_fields (snd arg) (item_fields old) \<rparr>
                    in (map (\<lambda>i. if item_id i = fst arg then new else i) db,
                        \<lparr> data = Some new, errors = [] \<rparr>))))"

text \<open>
  Modelled from the spec: the delete mutation of the missing resolvers. Operation access,
  the filtered lookup of the item, then item access; when denied it returns
  \<open>null\<close> with an access denied error and deletes nothing.
\<close>

definition deleteOne ::
  "'s list_config \<Rightarrow> 's \<Rightarrow> path_segment list \<Rightarrow> nat \<Rightarrow> items \<Rightarrow> items \<times> item response" where
  "deleteOne l s path ident db =
     (case check_operation l s OpDelete path of
        Inl e \<Rightarrow> (db, \<lparr> data = None, errors = [e] \<rparr>)
      | Inr allowed \<Rightarrow>
          if \<not> allowed then (db, \<lparr> data = None, errors = [AccessDeniedError path] \<rparr>)
          else
            (case find_item l s OpDelete ident db of
               None \<Rightarrow> (db, \<lparr> data = None, errors = [AccessDeniedError path] \<rparr>)
             | Some old \<Rightarrow>
                 if \<not> access_item_delete l s old
                 then (db, \<lparr> data = None, errors = [AccessDeniedError path] \<rparr>)
                 else (filter (\<lambda>i. item_id i \<noteq> ident) db,
                       \<lparr> data = Some old, errors = [] \<rparr>)))"

text \<open>
  Modelled from the spec: how a multi mutation of the missing resolvers runs the single
  mutation on every entry, in order, at the path of the entry, and collects the data and the
  errors.
\<close>

fun many ::
  "(path_segment list \<Rightarrow> 'i \<Rightarrow> items \<Rightarrow> items \<times> item response) \<Rightarrow> string \<Rightarrow> nat \<Rightarrow>
   'i list \<Rightarrow> items \<Rightarrow> items \<times> item option list \<times> gql_error list" where
  "many single name n [] db = (db, [], [])"
| "many single name n (x # xs) db =
     (case single [PathField name, Position n] x db of
        (db1, r) \<Rightarrow>
          (case many single name (Suc n) xs db1 of
             (db2, ds, es) \<Rightarrow> (db2, data r # ds, errors r @ es)))"

text \<open>
  Modelled from the spec: the response of a multi mutation: the data array, one entry per
  input, and the collected errors.
\<close>

definition many_response ::
  "items \<times> item option list \<times> gql_error list \<Rightarrow> items \<times> item option list response" where
  "many_response r = (case r of (db, ds, es) \<Rightarrow> (db, \<lparr> data = Some ds, errors = es \<rparr>))"

text \<open>
  Modelled from the spec: the multi create mutation of the missing resolvers.
\<close>

definition createMany ::
  "'s list_config \<Rightarrow> 's \<Rightarrow> (string \<times> string) list list \<Rightarrow> items \<Rightarrow>
   items \<times> item option list response" where
  "createMany l s inputs db =
     many_response (many (createOne l s) (field_name l CreateMany) 0 inputs db)"

text \<open>
  Modelled from the spec: the multi update mutation of the missing resolvers.
\<close>

definition updateMany ::
  "'s list_config \<Rightarrow> 's \<Rightarrow> (nat \<times> (string \<times> string) list) list \<Rightarrow> items \<Rightarrow>
   items \<times> item option list response" where
  "updateMany l s inputs db =
     many_response (many (updateOne l s) (field_name l UpdateMany) 0 inputs db)"

text \<open>
  Modelled from the spec: the multi delete mutation of the missing resolvers.
\<close>

definition deleteMany ::
  "'s list_config \<Rightarrow> 's \<Rightarrow> nat list \<Rightarrow> items \<Rightarrow> items \<times> item option list response" where
  "deleteMany l s inputs db =
     many_response (many (deleteOne l s) (field_name l DeleteMany) 0 inputs db)"

text \<open>
  Modelled from the spec: the single-item query of the missing resolvers. A denied item is
  treated as if it did not exist; only an invalid return value of the operation-level
  function is reported.
\<close>

definition findOne :: "'s list_config \<Rightarrow> 's \<Rightarrow> nat \<Rightarrow> items \<Rightarrow> item response" where
  "findOne l s ident db =
     (case check_operation l s OpQuery [PathField (field_name l FindOne)] of
        Inl e \<Rightarrow> \<lparr> data = None, errors = [e] \<rparr>
      | Inr allowed \<Rightarrow>
          if \<not> allowed then \<lparr> data = None, errors = [] \<rparr>
          else \<lparr> data = find_item l s OpQuery ident db, errors = [] \<rparr>)"

text \<open>
  Modelled from the spec: the many-items query of the missing resolvers: the items that
  match both the query's filter and the access filter.
\<close>

definition findMany ::
  "'s list_config \<Rightarrow> 's \<Rightarrow> (item \<Rightarrow> bool) \<Rightarrow> items \<Rightarrow> item list response" where
  "findMany l s wh db =
     (case check_operation l s OpQuery [PathField (field_name l FindMany)] of
        Inl e \<Rightarrow> \<lparr> data = None, errors = [e] \<rparr>
      | Inr allowed \<Rightarrow>
          if \<not> allowed then \<lparr> data = Some [], errors = [] \<rparr>
          else \<lparr> data = Some (filter (\<lambda>i. wh i \<and> matches (access_filter l OpQuery s) i) db),
                 errors = [] \<rparr>)"

text \<open>
  Modelled from the spec: the count query of the missing resolvers: the number of items that
  match both the query's filter and the access filter.
\<close>

definition count :: "'s list_config \<Rightarrow> 's \<Rightarrow> (item \<Rightarrow> bool) \<Rightarrow> items \<Rightarrow> nat response" where
  "count l s wh db =
     (case check_operation l s OpQuery [PathField (field_name l Count)] of
        Inl e \<Rightarrow> \<lparr> data = None, errors = [e] \<rparr>
      | Inr allowed \<Rightarrow>
          if \<not> allowed then \<lparr> data = Some 0, errors = [] \<rparr>
          else \<lparr> data = Some (length (filter (\<lambda>i. wh i \<and> matches (access_filter l OpQuery s) i) db)),
                 errors = [] \<rparr>)"

text \<open>
  Modelled from the spec: when the reference calls a create mutation denied: the
  operation-level function returns \<open>false\<close>, or it returns \<open>true\<close>
  and the item-level function returns \<open>false\<close>.
\<close>

definition create_denied :: "'s list_config \<Rightarrow> 's \<Rightarrow> (string \<times> string) list \<Rightarrow> bool" where
  "create_denied l s input =
     (access_operation l OpCreate s = ReturnsBool False
      \<or> (access_operation l OpCreate s = ReturnsBool True \<and> \<not> access_item_create l s input))"

text \<open>
  Modelled from the spec: when the reference calls an update mutation denied: the
  operation-level function returns \<open>false\<close>, or it returns \<open>true\<close>
  and the filtered lookup finds no item or the item-level function returns
  \<open>false\<close>.
\<close>

definition update_denied ::
  "'s list_config \<Rightarrow> 's \<Rightarrow> nat \<times> (string \<times> string) list \<Rightarrow> items \<Rightarrow> bool" where
  "update_denied l s arg db =
     (access_operation l OpUpdate s = ReturnsBool False
      \<or> (access_operation l OpUpdate s = ReturnsBool True
         \<and> (case find_item l s OpUpdate (fst arg) db of
               None \<Rightarrow> True
             | Some old \<Rightarrow> \<not> access_item_update l s (snd arg) old)))"

text \<open>
  Modelled from the spec: when the reference calls a delete mutation denied, as for an
  update.
\<close>

definition delete_denied :: "'s list_config \<Rightarrow> 's \<Rightarrow> nat \<Rightarrow> items \<Rightarrow> bool" where
  "delete_denied l s ident db =
     (access_operation l OpDelete s = ReturnsBool False
      \<or> (access_operation l OpDelete s = ReturnsBool True
         \<and> (case find_item l s OpDelete ident db of
               None \<Rightarrow> True
             | Some old \<Rightarrow> \<not> access_item_delete l s old)))"

text \<open>
  Modelled from the spec: when the reference calls an item denied to a query: the
  operation-level function returns \<open>false\<close>, or it returns \<open>true\<close>
  and the access filter excludes the item. Item access does not apply to queries.
\<close>

definition query_denied :: "'s list_config \<Rightarrow> 's \<Rightarrow> item \<Rightarrow> bool" where
  "query_denied l s i =
     (access_operation l OpQuery s = ReturnsBool False
      \<or> (access_operation l OpQuery s = ReturnsBool True
         \<and> \<not> matches (access_filter l OpQuery s) i))"

text \<open>
  Modelled from the spec: whether a returned value is \<open>true\<close> or
  \<open>false\<close>, as the reference requires of an operation-level function.
\<close>

definition returns_boolean :: "returned \<Rightarrow> bool" where
  "returns_boolean v = (case v of ReturnsBool b \<Rightarrow> True | _ \<Rightarrow> False)"

text \<open>
  Modelled from the spec: the response of a denied single mutation: \<open>null\<close> and
  one access denied error at the mutation's path.
\<close>

definition denied_response :: "path_segment list \<Rightarrow> 'a response" where
  "denied_response p = \<lparr> data = None, errors = [AccessDeniedError p] \<rparr>"

text \<open>
  Modelled from the spec: the paths of the \<open>null\<close> entries of a data array, in
  order.
\<close>

definition null_positions :: "string \<Rightarrow> 'a option list \<Rightarrow> path_segment list list" where
  "null_positions name ds =
     map (\<lambda>i. [PathField name, Position i]) (filter (\<lambda>i. ds ! i = None) [0..<length ds])"

text \<open>
  Modelled from the spec: the shape of the result of a single mutation: an item and no
  error, or \<open>null\<close> and one error at its path.
\<close>

definition one_error_if_null ::
  "(path_segment list \<Rightarrow> 'i \<Rightarrow> items \<Rightarrow> items \<times> item response) \<Rightarrow> bool" where
  "one_error_if_null single =
     (\<forall>p x db.
        (data (snd (single p x db)) = None
         \<and> (\<exists>e. errors (snd (single p x db)) = [e] \<and> error_path e = p))
        \<or> (data (snd (single p x db)) \<noteq> None \<and> errors (snd (single p x db)) = []))"


section \<open>Authentication mutations\<close>

text \<open>
  The auth package is not part of the excerpt either; the definitions of this section are
  modelled from its integration tests.
\<close>

text \<open>
  Modelled from the spec: the state of a user's magic-link token in the authentication
  tests: the token sent, when it was issued and when it was redeemed, in milliseconds.
\<close>

record token_state =
  token :: string
  issuedAt :: int
  redeemedAt :: "int option"

text \<open>
  Modelled from the spec: a user of the authentication tests, with the identity field
  \<open>email\<close> and the secret field \<open>password\<close> (the comparison of a
  given password with the stored hash is modelled by equality).
\<close>

record user =
  user_id :: nat
  user_name :: string
  email :: string
  password :: string
  magicAuth :: "token_state option"

text \<open>
  Modelled from the spec: the result type of \<open>authenticateUserWithPassword\<close> as
  the tests query it: a session token and the item's id, or a message.
\<close>

datatype authentication_result =
    AuthenticationSuccess string nat
  | AuthenticationFailure string

text \<open>
  Modelled from the spec: the result type of \<open>redeemUserMagicAuthToken\<close> as the
  tests query it: a token and the item's id, or a code and a message.
\<close>

datatype redeem_result =
    RedeemSuccess string nat
  | RedeemFailure string string

text \<open>
  Modelled from the spec: what the tests read of an HTTP response: the data of the mutation,
  the GraphQL errors and the session cookie header, if one is set.
\<close>

record 'a http_response =
  body_data :: 'a
  body_errors :: "string list"
  session_header :: "string option"

text \<open>
  Modelled from the spec: the lookup of a user by the identity field.
\<close>

definition find_user :: "user list \<Rightarrow> string \<Rightarrow> user option" where
  "find_user users identity = find (\<lambda>u. email u = identity) users"

text \<open>
  Modelled from the spec: \<open>authenticateUserWithPassword\<close> of the missing auth
  package; \<open>start_session\<close> stands for the sealing of the session token.
\<close>

definition authenticateUserWithPassword ::
  "(user \<Rightarrow> string) \<Rightarrow> user list \<Rightarrow> string \<Rightarrow> string \<Rightarrow> authentication_result http_response" where
  "authenticateUserWithPassword start_session users identity secret =
     (case find_user users identity of
        None \<Rightarrow>
          \<lparr> body_data = AuthenticationFailure ''Authentication failed.'',
            body_errors = [], session_header = None \<rparr>
      | Some u \<Rightarrow>
          if password u = secret
          then \<lparr> body_data = AuthenticationSuccess (start_session u) (user_id u),
                 body_errors = [], session_header = Some (start_session u) \<rparr>
          else \<lparr> body_data = AuthenticationFailure ''Authentication failed.'',
                 body_errors = [], session_header = None \<rparr>)"

text \<open>
  Modelled from the spec: \<open>redeemUserMagicAuthToken\<close> of the missing auth
  package, with the four outcomes the tests show: failure (unknown identity or wrong token),
  token already redeemed, token expired (older than \<open>tokensValidForMins\<close>), and
  success, which records the redemption time and starts a session.
\<close>

definition redeemUserMagicAuthToken ::
  "(user \<Rightarrow> string) \<Rightarrow> int \<Rightarrow> int \<Rightarrow> user list \<Rightarrow> string \<Rightarrow> string \<Rightarrow>
   user list \<times> redeem_result http_response" where
  "redeemUserMagicAuthToken start_session tokensValidForMins now users identity tok =
     (let failure = (\<lambda>code message.
            \<lparr> body_data = RedeemFailure code message, body_errors = [], session_header = None \<rparr>)
      in case find_user users identity of
           None \<Rightarrow> (users, failure ''FAILURE'' ''Auth token redemption failed.'')
         | Some u \<Rightarrow>
             (case magicAuth u of
                None \<Rightarrow> (users, failure ''FAILURE'' ''Auth token redemption failed.'')
              | Some t \<Rightarrow>
                  if token t \<noteq> tok
                  then (users, failure ''FAILURE'' ''Auth token redemption failed.'')
                  else if redeemedAt t \<noteq> None
                  then (users, failure ''TOKEN_REDEEMED''
                          ''Auth tokens are single use and the auth token provided has already been redeemed.'')
                  else if now - issuedAt t > tokensValidForMins * 60 * 1000
                  then (users, failure ''TOKEN_EXPIRED'' ''The auth token provided has expired.'')
                  else
                    (map (\<lambda>v. if email v = identity
                               then v \<lparr> magicAuth := Some (t \<lparr> redeemedAt := Some now \<rparr>) \<rparr>
                               else v) users,
                     \<lparr> body_data = RedeemSuccess (start_session u) (user_id u),
                       body_errors = [], session_header = Some (start_session u) \<rparr>)))"

text \<open>
  Modelled from the spec: the first cause of failure the tests distinguish: no user has the
  identity.
\<close>

definition unknown_identity :: "user list \<Rightarrow> string \<Rightarrow> bool" where
  "unknown_identity users identity = (find_user users identity = None)"

text \<open>
  Modelled from the spec: the second cause of failure of
  \<open>authenticateUserWithPassword\<close>: a user has the identity and the password
  given is not theirs.
\<close>

definition wrong_password :: "user list \<Rightarrow> string \<Rightarrow> string \<Rightarrow> bool" where
  "wrong_password users identity secret =
     (case find_user users identity of None \<Rightarrow> False | Some u \<Rightarrow> password u \<noteq> secret)"

text \<open>
  Modelled from the spec: the second cause of failure of
  \<open>redeemUserMagicAuthToken\<close>: a user has the identity and the token given is
  not the one sent to them.
\<close>

definition wrong_token :: "user list \<Rightarrow> string \<Rightarrow> string \<Rightarrow> bool" where
  "wrong_token users identity tok =
     (case find_user users identity of
        None \<Rightarrow> False
      | Some u \<Rightarrow> (case magicAuth u of None \<Rightarrow> True | Some t \<Rightarrow> token t \<noteq> tok))"


section \<open>Example configurations\<close>

text \<open>
  Concrete inputs for the evaluations below. The imported helpers are instantiated with
  the simplest behaviour: labels are left as they are, the non-null assertions pass, and
  the \<open>Decimal\<close> constructor is given on the two literals that occur.
\<close>

definition example_deps :: "'v deps" where
  "example_deps =
     \<lparr> humanize = (\<lambda>s. s),
       assertReadIsNonNullAllowed = (\<lambda>m c. True),
       assertCreateIsNonNullAllowed = (\<lambda>m c. True),
       classify = (\<lambda>s. s),
       newDecimal = map_of [(''0'', Dec 0), (''10'', Dec 10)] \<rparr>"

definition example_meta :: field_meta where
  "example_meta = \<lparr> listKey = ''Post'', fieldKey = ''rating'', provider = Postgresql \<rparr>"

definition plain_config :: "'v field_config" where
  "plain_config =
     \<lparr> label = None, hooks_validateInput = None, isNullable = None,
       graphql_create_isNonNull = None, graphql_read_isNonNull = None,
       isIndexed = None, validation_isRequired = None \<rparr>"

definition integer_select :: "(string \<times> number) list \<Rightarrow> select_config" where
  "integer_select os =
     \<lparr> common = plain_config, ui_displayMode = None, options = IntegerOptions os None \<rparr>"

definition string_select :: "string_option list \<Rightarrow> string option \<Rightarrow> select_config" where
  "string_select os d =
     \<lparr> common = plain_config, ui_displayMode = None, options = StringOptions os None d \<rparr>"

definition decimal_with_bounds ::
  "string option \<Rightarrow> string option \<Rightarrow> string option \<Rightarrow> decimal_config" where
  "decimal_with_bounds lo hi d =
     \<lparr> dcommon = plain_config, validation_min = lo, validation_max = hi,
       precision = None, scale = None, defaultValue = d \<rparr>"

definition read_nonnull_select :: select_config where
  "read_nonnull_select =
     \<lparr> common = plain_config \<lparr> isNullable := Some False, graphql_create_isNonNull := Some False,
                                   graphql_read_isNonNull := Some True \<rparr>,
       ui_displayMode = None,
       options = StringOptions [Plain ''draft'', Plain ''published''] None (Some ''draft'') \<rparr>"

definition create_nonnull_select :: select_config where
  "create_nonnull_select =
     \<lparr> common = plain_config \<lparr> graphql_create_isNonNull := Some True \<rparr>,
       ui_displayMode = None,
       options = StringOptions [Plain ''draft'', Plain ''published''] None (Some ''draft'') \<rparr>"

subsection \<open>Example lists and users\<close>

text \<open>
  The list \<open>BadAccess\<close> of the access-control tests: every operation-level function
  returns a filter object.
\<close>

definition BadAccess :: "unit list_config" where
  "BadAccess =
     \<lparr> key = ''BadAccess'',
       field_name = (\<lambda>r. case r of
           FindOne \<Rightarrow> ''badAccess'' | FindMany \<Rightarrow> ''badAccesses''
         | Count \<Rightarrow> ''badAccessesCount''
         | CreateOne \<Rightarrow> ''createBadAccess'' | UpdateOne \<Rightarrow> ''updateBadAccess''
         | DeleteOne \<Rightarrow> ''deleteBadAccess''
         | CreateMany \<Rightarrow> ''createBadAccesses'' | UpdateMany \<Rightarrow> ''updateBadAccesses''
         | DeleteMany \<Rightarrow> ''deleteBadAccesses''),
       access_operation = (\<lambda>op s. ReturnsFilter (\<lambda>i. map_of (item_fields i) ''name'' \<noteq> Some ''bad'')),
       access_filter = (\<lambda>op s. FilterBool True),
       access_item_create = (\<lambda>s d. True),
       access_item_update = (\<lambda>s d i. True),
       access_item_delete = (\<lambda>s i. True) \<rparr>"

text \<open>
  A list in the style of the access-control reference: anyone may query, only a signed-in
  session (\<open>True\<close>) may mutate; queries see published items only; an item can be created
  only with a title and deleted only when it is not locked.
\<close>

definition Post :: "bool list_config" where
  "Post =
     \<lparr> key = ''Post'',
       field_name = (\<lambda>r. case r of
           FindOne \<Rightarrow> ''post'' | FindMany \<Rightarrow> ''posts'' | Count \<Rightarrow> ''postsCount''
         | CreateOne \<Rightarrow> ''createPost'' | UpdateOne \<Rightarrow> ''updatePost''
         | DeleteOne \<Rightarrow> ''deletePost''
         | CreateMany \<Rightarrow> ''createPosts'' | UpdateMany \<Rightarrow> ''updatePosts''
         | DeleteMany \<Rightarrow> ''deletePosts''),
       access_operation = (\<lambda>op s. ReturnsBool (op = OpQuery \<or> s)),
       access_filter = (\<lambda>op s. if op = OpQuery
                                 then Filter (\<lambda>i. map_of (item_fields i) ''status'' = Some ''published'')
                                 else FilterBool True),
       access_item_create = (\<lambda>s d. map_of d ''title'' \<noteq> None),
       access_item_update = (\<lambda>s d i. True),
       access_item_delete = (\<lambda>s i. map_of (item_fields i) ''locked'' \<noteq> Some ''yes'') \<rparr>"

definition good_item :: item where
  "good_item = \<lparr> item_id = 1, item_fields = [(''name'', ''good'')] \<rparr>"

definition draft_post :: item where
  "draft_post = \<lparr> item_id = 1, item_fields = [(''title'', ''A''), (''status'', ''draft'')] \<rparr>"

definition published_post :: item where
  "published_post =
     \<lparr> item_id = 2, item_fields = [(''title'', ''B''), (''status'', ''published'')] \<rparr>"

text \<open>The users the authentication tests seed, the first with a magic-link token issued.\<close>

definition seeded_users :: "user list" where
  "seeded_users =
     [\<lparr> user_id = 1, user_name = ''Boris Bozic'', email = ''boris@keystone.com'',
        password = ''correctbattery'',
        magicAuth = Some \<lparr> token = ''MAGIC'', issuedAt = 0, redeemedAt = None \<rparr> \<rparr>,
      \<lparr> user_id = 2, user_name = ''Jed Watson'', email = ''jed@keystone.com'',
        password = ''horsestaple'', magicAuth = None \<rparr>,
      \<lparr> user_id = 3, user_name = ''Bad User'', email = ''bad@keystone.com'',
        password = ''incorrectbattery'', magicAuth = None \<rparr>]"

text \<open>A session token for the examples.\<close>

definition example_session :: "user \<Rightarrow> string" where
  "example_session u = ''session:'' @ email u"


section \<open>Properties of the select field\<close>

subsection \<open>Auxiliary facts\<close>

lemma length_remdups_distinct: "length (remdups xs) = length xs \<longleftrightarrow> distinct xs"
  by (simp add: length_remdups_eq remdups_id_iff_distinct)

lemma set_size_options:
  "length (remdups (map snd opts)) = length opts \<longleftrightarrow> distinct (map snd opts)"
  using length_remdups_distinct [of "map snd opts"] by simp

lemma commonConfig_eq:
  "commonConfig deps cfg meta opts =
     (if distinct (map snd opts)
      then Inr (select_validateInput deps cfg meta (map snd opts))
      else Inl DuplicateOptions)"
  by (simp add: commonConfig_def Let_def set_size_options distinct_remdups_id)

lemma map_snd_number:
  "map snd (map (\<lambda>(l, v). (l, NumberValue v)) os) = map (\<lambda>(l, v). NumberValue v) os"
  by (induction os) auto

lemma map_snd_string:
  "map snd (map (\<lambda>(l, v). (l, StringValue v)) (map (normalise_option deps) os))
     = map (\<lambda>opt. case opt of Plain s \<Rightarrow> StringValue s | Labelled l v \<Rightarrow> StringValue v) os"
  by (induction os) (auto simp: normalise_option_def split: string_option.splits)

lemmas commonConfig_integer = commonConfig_eq [of _ _ _ "map (\<lambda>(l, v). (l, NumberValue v)) os", unfolded map_snd_number] for os

lemmas commonConfig_string =
  commonConfig_eq [of _ _ _ "map (\<lambda>(l, v). (l, StringValue v)) (map (normalise_option deps) os)",
    unfolded map_snd_string] for deps os

lemma isInteger_iff: "isInteger v \<longleftrightarrow> (\<exists>i::int. v = Num (of_int i))"
proof (cases v)
  case (Num q)
  have "of_int \<lfloor>q\<rfloor> = q \<longleftrightarrow> (\<exists>i::int. q = of_int i)"
  proof
    assume "of_int \<lfloor>q\<rfloor> = q"
    then have "q = of_int \<lfloor>q\<rfloor>" by (rule sym)
    then show "\<exists>i::int. q = of_int i" by (rule exI)
  next
    assume "\<exists>i::int. q = of_int i"
    then show "of_int \<lfloor>q\<rfloor> = q" by (elim exE) simp
  qed
  with Num show ?thesis by (simp add: isInteger_def)
qed (simp_all add: isInteger_def)

lemma isInteger_Num: "isInteger (Num q) \<longleftrightarrow> q \<in> \<int>"
  using isInteger_iff [of "Num q"] by (auto elim: Ints_cases)

lemma isInteger_simps:
  "isInteger NumNaN = False" "isInteger PosInfinity = False" "isInteger NegInfinity = False"
  by (simp_all add: isInteger_def)

lemma select_Inr:
  assumes "select deps cfg meta = Inr f"
  shows "\<exists>db t hook. f = select_impl cfg db t hook \<and> (\<forall>u. t \<noteq> NonNull u)"
proof (cases "options cfg")
  case (StringOptions os t d)
  with assms show ?thesis
    by (auto simp add: select_def Let_def commonConfig_eq simp del: map_map
        split: if_splits)
next
  case (IntegerOptions os d)
  with assms show ?thesis
    by (auto simp add: select_def Let_def commonConfig_eq simp del: map_map
        split: if_splits)
qed

lemma create_ignores_create_flag:
  "create (cfg\<lparr>common := (common cfg)\<lparr>graphql_create_isNonNull := b\<rparr>\<rparr>) t = create cfg t"
  by (simp add: create_def Let_def select_defaultValue_def)

lemma select_same_type:
  assumes "select deps cfg meta = Inr f" and "select deps cfg' meta = Inr f'"
    and "options cfg' = options cfg"
  shows "\<exists>t. create_arg f = create cfg t \<and> create_arg f' = create cfg' t"
proof (cases "options cfg")
  case (StringOptions os t d)
  with assms show ?thesis
    by (auto simp add: select_def Let_def commonConfig_eq select_impl_def simp del: map_map
        split: if_splits)
next
  case (IntegerOptions os d)
  with assms show ?thesis
    by (auto simp add: select_def Let_def commonConfig_eq select_impl_def simp del: map_map
        split: if_splits)
qed

lemmas example_defs =
  example_deps_def example_meta_def plain_config_def integer_select_def string_select_def
  decimal_with_bounds_def read_nonnull_select_def create_nonnull_select_def

lemmas select_defs =
  select_def Let_def commonConfig_def select_impl_def db_mode_def db_index_def
  select_defaultValue_def isInteger_Num isInteger_simps num_gt_def num_lt_def MAX_INT_def MIN_INT_def
  normalise_option_def


subsection \<open>Duplicate options\<close>

text \<open>
  Claim C5, as amended. The constructor of the select field throws the
  "has duplicate options" error exactly when two entries of the options list have the
  same value and no earlier check of the constructor has thrown: the non-null assertions
  pass and, for \<open>type: 'integer'\<close>, every option value is an integer within the 32 bit
  signed range. In particular it never throws this error when all values are distinct.
\<close>

theorem select_duplicate_options:
  "select deps cfg meta = Inl DuplicateOptions \<longleftrightarrow>
     (\<not> distinct (option_values cfg)
      \<and> (isNullable (common cfg) = Some False \<longrightarrow> assertReadIsNonNullAllowed deps meta (common cfg))
      \<and> assertCreateIsNonNullAllowed deps meta (common cfg)
      \<and> (\<forall>os d. options cfg = IntegerOptions os d \<longrightarrow>
            \<not> list_ex (\<lambda>(l, v). \<not> isInteger v \<or> num_gt v MAX_INT \<or> num_lt v MIN_INT) os))"
proof (cases "options cfg")
  case (StringOptions os t d)
  then show ?thesis
    by (auto simp add: select_def Let_def option_values_def commonConfig_string
        simp del: map_map)
next
  case (IntegerOptions os d)
  then show ?thesis
    by (auto simp add: select_def Let_def option_values_def commonConfig_integer
        simp del: map_map)
qed

text \<open>
  As stated for every configuration, C5 fails: two integer options that share the value
  3000000000 make the constructor throw the range error, not the duplicate-options error.
\<close>

theorem select_duplicate_options_counterexample:
  "\<not> distinct (option_values (integer_select [(''Big'', Num 3000000000), (''Large'', Num 3000000000)]))
   \<and> select example_deps (integer_select [(''Big'', Num 3000000000), (''Large'', Num 3000000000)])
         example_meta = Inl OutsideInt32Range"
  by (simp add: option_values_def example_defs select_defs)

text \<open>
  The amended statement at a configuration with a duplicated value and at one with
  distinct values.
\<close>

theorem select_duplicate_options_witness:
  "\<not> distinct (option_values (string_select [Plain ''draft'', Labelled ''Draft'' ''draft''] None))
   \<and> select example_deps (string_select [Plain ''draft'', Labelled ''Draft'' ''draft''] None)
         example_meta = Inl DuplicateOptions
   \<and> distinct (option_values (string_select [Plain ''draft'', Plain ''published''] None))
   \<and> select example_deps (string_select [Plain ''draft'', Plain ''published''] None)
         example_meta \<noteq> Inl DuplicateOptions"
  using select_duplicate_options
          [of example_deps "string_select [Plain ''draft'', Labelled ''Draft'' ''draft''] None"
              example_meta]
        select_duplicate_options
          [of example_deps "string_select [Plain ''draft'', Plain ''published''] None"
              example_meta]
  by (simp add: option_values_def example_defs)


subsection \<open>The 32 bit range check of integer options\<close>

text \<open>
  Claim C8, as amended. For a select field with \<open>type: 'integer'\<close> whose non-null
  assertions pass, the constructor throws the "outside the range of a 32 bit signed
  integer" error exactly when some option value is not an integer, is greater than
  2147483647 or is less than -2147483648. When it does not and the option values are
  pairwise distinct, the field is constructed with an \<open>Int\<close> scalar database field.
\<close>

theorem select_integer_range:
  assumes "options cfg = IntegerOptions os d"
    and "isNullable (common cfg) = Some False \<longrightarrow> assertReadIsNonNullAllowed deps meta (common cfg)"
    and "assertCreateIsNonNullAllowed deps meta (common cfg)"
  shows "(select deps cfg meta = Inl OutsideInt32Range \<longleftrightarrow>
            (\<exists>(l, v) \<in> set os.
                \<not> isInteger v \<or> num_gt v (Num 2147483647) \<or> num_lt v (Num (- 2147483648))))
       \<and> (select deps cfg meta \<noteq> Inl OutsideInt32Range \<and> distinct (map snd os) \<longrightarrow>
            (\<exists>f. select deps cfg meta = Inr f
                 \<and> dbField f = ScalarField (db_mode (common cfg)) ''Int'' None
                                 (db_index (isIndexed (common cfg))) (map_option NumberValue d)))"
proof -
  have m: "map (\<lambda>(l, v). NumberValue v) os = map NumberValue (map snd os)"
    by (induction os) auto
  have d: "distinct (map (\<lambda>(l, v). NumberValue v) os) \<longleftrightarrow> distinct (map snd os)"
    unfolding m by (simp add: distinct_map inj_on_def del: map_map)
  show ?thesis
    using assms
    by (auto simp add: select_def Let_def commonConfig_integer d select_impl_def
          select_defaultValue_def MAX_INT_def MIN_INT_def list_ex_iff
        simp del: map_map)
qed

text \<open>
  As stated, C8 fails in its last part: two options with the value 1 pass the range check,
  and the field is still not constructed, because the duplicate-options check throws.
\<close>

theorem select_integer_range_counterexample:
  "\<not> list_ex (\<lambda>(l, v). \<not> isInteger v \<or> num_gt v (Num 2147483647) \<or> num_lt v (Num (- 2147483648)))
        [(''One'', Num 1), (''Uno'', Num 1)]
   \<and> select example_deps (integer_select [(''One'', Num 1), (''Uno'', Num 1)]) example_meta
       = Inl DuplicateOptions"
  by (simp add: example_defs select_defs)

text \<open>
  The amended statement at a non-integer value, at a value above the range and at the two
  bounds of the range.
\<close>

theorem select_integer_range_witness:
  "select example_deps (integer_select [(''Low'', Num 1), (''Half'', Num (3 / 2))]) example_meta
     = Inl OutsideInt32Range
   \<and> select example_deps (integer_select [(''Low'', Num 1), (''Max'', Num 2147483648)]) example_meta
     = Inl OutsideInt32Range
   \<and> (\<exists>f. select example_deps (integer_select [(''Min'', Num (- 2147483648)), (''Max'', Num 2147483647)])
              example_meta = Inr f
          \<and> dbField f = ScalarField Optional ''Int'' None None None)"
  using select_integer_range
          [of "integer_select [(''Low'', Num 1), (''Half'', Num (3 / 2))]"
              "[(''Low'', Num 1), (''Half'', Num (3 / 2))]" None example_deps example_meta]
        select_integer_range
          [of "integer_select [(''Low'', Num 1), (''Max'', Num 2147483648)]"
              "[(''Low'', Num 1), (''Max'', Num 2147483648)]" None example_deps example_meta]
        select_integer_range
          [of "integer_select [(''Min'', Num (- 2147483648)), (''Max'', Num 2147483647)]"
              "[(''Min'', Num (- 2147483648)), (''Max'', Num 2147483647)]" None
              example_deps example_meta]
  by (simp add: example_defs isInteger_Num num_gt_def num_lt_def db_mode_def db_index_def)


subsection \<open>The create argument\<close>

text \<open>
  Claim C9. For every select field that is constructed, the type of the create input
  argument is non-null exactly when \<open>isNullable\<close> is \<open>false\<close> and
  \<open>graphql.read.isNonNull\<close> is \<open>true\<close>, its default value is attached under the same
  condition, and changing \<open>graphql.create.isNonNull\<close> to any value leaves the create
  argument as it is.
\<close>

theorem select_create_arg_nonnull:
  assumes "select deps cfg meta = Inr f"
  shows "((\<exists>t. arg_type (create_arg f) = NonNull t) \<longleftrightarrow>
            (isNullable (common cfg) = Some False \<and> graphql_read_isNonNull (common cfg) = Some True))
       \<and> arg_defaultValue (create_arg f) =
            (if isNullable (common cfg) = Some False \<and> graphql_read_isNonNull (common cfg) = Some True
             then select_defaultValue cfg else None)
       \<and> (\<forall>b f'. select deps (cfg\<lparr>common := (common cfg)\<lparr>graphql_create_isNonNull := b\<rparr>\<rparr>) meta = Inr f'
              \<longrightarrow> create_arg f' = create_arg f)"
proof -
  obtain db t hook where f: "f = select_impl cfg db t hook" and t: "\<forall>u. t \<noteq> NonNull u"
    using select_Inr [OF assms] by blast
  have 1: "(\<exists>u. arg_type (create_arg f) = NonNull u) \<longleftrightarrow>
            (isNullable (common cfg) = Some False \<and> graphql_read_isNonNull (common cfg) = Some True)"
    using t by (auto simp: f select_impl_def create_def Let_def)
  have 2: "arg_defaultValue (create_arg f) =
            (if isNullable (common cfg) = Some False \<and> graphql_read_isNonNull (common cfg) = Some True
             then select_defaultValue cfg else None)"
    by (simp add: f select_impl_def create_def Let_def)
  have 3: "create_arg f' = create_arg f"
    if h: "select deps (cfg\<lparr>common := (common cfg)\<lparr>graphql_create_isNonNull := b\<rparr>\<rparr>) meta = Inr f'"
    for b f'
    using select_same_type [OF assms h] by (auto simp: create_ignores_create_flag)
  from 1 2 3 show ?thesis by blast
qed

text \<open>
  C9 at a configuration with \<open>graphql.read.isNonNull\<close> set and
  \<open>graphql.create.isNonNull: false\<close> (the argument is non-null), and at one with only
  \<open>graphql.create.isNonNull: true\<close> (the argument is nullable).
\<close>

theorem select_create_arg_nonnull_witness:
  "(\<exists>f. select example_deps read_nonnull_select example_meta = Inr f
        \<and> (\<exists>t. arg_type (create_arg f) = NonNull t)
        \<and> arg_defaultValue (create_arg f) = Some (StringValue ''draft''))
   \<and> (\<exists>f. select example_deps create_nonnull_select example_meta = Inr f
        \<and> \<not> (\<exists>t. arg_type (create_arg f) = NonNull t)
        \<and> arg_defaultValue (create_arg f) = None)"
proof -
  have "\<exists>f. select example_deps read_nonnull_select example_meta = Inr f"
    by (simp add: example_defs select_defs)
  then obtain f where f: "select example_deps read_nonnull_select example_meta = Inr f" ..
  have "\<exists>g. select example_deps create_nonnull_select example_meta = Inr g"
    by (simp add: example_defs select_defs)
  then obtain g where g: "select example_deps create_nonnull_select example_meta = Inr g" ..
  from select_create_arg_nonnull [OF f]
  have 1: "(\<exists>t. arg_type (create_arg f) = NonNull t)
           \<and> arg_defaultValue (create_arg f) = Some (StringValue ''draft'')"
    by (simp add: example_defs select_defaultValue_def)
  from select_create_arg_nonnull [OF g]
  have 2: "\<not> (\<exists>t. arg_type (create_arg g) = NonNull t)
           \<and> arg_defaultValue (create_arg g) = None"
    by (simp add: example_defs select_defaultValue_def)
  from f g 1 2 show ?thesis by blast
qed


section \<open>Properties of the decimal field\<close>

text \<open>
  The field never reads \<open>validation.min\<close>: both bounds of the hook are the parsed
  \<open>validation.max\<close>.
\<close>

lemma decimal_validateInput_ignores_min:
  "decimal_validateInput deps (cfg\<lparr>validation_min := x\<rparr>) meta lo hi
     = decimal_validateInput deps cfg meta lo hi"
  by (rule ext) (simp add: decimal_validateInput_def)

lemma decimal_ignores_validation_min:
  "decimal deps (cfg\<lparr>validation_min := x\<rparr>) meta = decimal deps cfg meta"
  by (simp add: decimal_def Let_def decimal_validateInput_ignores_min
      cong: sum.case_cong if_cong)

lemma decimal_bounds_from_max:
  assumes "decimal deps cfg meta = Inr f"
  shows "\<exists>m. parse_if_defined deps meta (validation_max cfg) ''validation.max'' = Inr m
            \<and> validateInput f = decimal_validateInput deps cfg meta m m"
  using assms
  by (auto simp: decimal_def Let_def split: if_splits sum.splits)

text \<open>
  Claim C1 fails on the code: the constant \<open>min\<close> of the decimal field is computed from
  \<open>validation.max\<close>. With \<open>validation: { min: '10' }\<close> the value 5 passes without an
  error. With \<open>validation: { min: '0', max: '10' }\<close> the value 5, which lies within the
  bounds, is rejected as being less than 10.
\<close>

theorem decimal_min_not_enforced:
  "(\<exists>f. decimal example_deps (decimal_with_bounds (Some ''10'') None None) example_meta = Inr f
        \<and> validateInput f \<lparr> resolvedValue = Val (Dec 5), operation = Create \<rparr> = [])
   \<and> (\<exists>f. decimal example_deps (decimal_with_bounds (Some ''0'') (Some ''10'') None) example_meta = Inr f
        \<and> validateInput f \<lparr> resolvedValue = Val (Dec 5), operation = Create \<rparr>
            = [MustBeGreaterOrEqual ''rating'' (Dec 10)])"
  by (simp add: example_defs decimal_def Let_def isInteger_Num num_gt_def num_lt_def
        parse_if_defined_def parseDecimalValueOption_def isFinite_def lessThan_Decimal_def
        greaterThan_Decimal_def decimal_validateInput_def field_label_def user_validateInput_def)


section \<open>Defaulting of the create input\<close>

text \<open>
  Claim C10. For every select field and every decimal field that is constructed, the
  resolver of the create input maps \<open>undefined\<close> to the configured default value (for the
  decimal field, the \<open>Decimal\<close> made from the configured string), or to \<open>null\<close> when none
  is configured, and maps every other input, \<open>null\<close> included, to itself.
\<close>

theorem create_resolve_defaulting:
  "(select deps cfg meta = Inr f \<longrightarrow>
      create_resolve f Undefined = (case select_defaultValue cfg of Some d \<Rightarrow> Val d | None \<Rightarrow> Null)
      \<and> (\<forall>v. v \<noteq> Undefined \<longrightarrow> create_resolve f v = v))
   \<and> (decimal ddeps dcfg dmeta = Inr g \<longrightarrow>
      (case defaultValue dcfg of
         Some s \<Rightarrow> \<exists>d. newDecimal ddeps s = Some d \<and> create_resolve g Undefined = Val d
       | None \<Rightarrow> create_resolve g Undefined = Null)
      \<and> (\<forall>v. v \<noteq> Undefined \<longrightarrow> create_resolve g v = v))"
proof (intro conjI impI)
  assume a: "select deps cfg meta = Inr f"
  obtain db t hook where f: "f = select_impl cfg db t hook"
    using select_Inr [OF a] by blast
  show "create_resolve f Undefined = (case select_defaultValue cfg of Some d \<Rightarrow> Val d | None \<Rightarrow> Null)"
    by (simp add: f select_impl_def resolveCreate_def)
  show "\<forall>v. v \<noteq> Undefined \<longrightarrow> create_resolve f v = v"
    by (simp add: f select_impl_def resolveCreate_def)
next
  assume a: "decimal ddeps dcfg dmeta = Inr g"
  show "case defaultValue dcfg of
         Some s \<Rightarrow> \<exists>d. newDecimal ddeps s = Some d \<and> create_resolve g Undefined = Val d
       | None \<Rightarrow> create_resolve g Undefined = Null"
    using a
    by (auto simp: decimal_def Let_def parse_if_defined_def parseDecimalValueOption_def decimal_resolve_def
        split: if_splits sum.splits option.splits)
  show "\<forall>v. v \<noteq> Undefined \<longrightarrow> create_resolve g v = v"
    using a
    by (auto simp: decimal_def Let_def decimal_resolve_def
        split: if_splits sum.splits option.splits)
qed

text \<open>
  C10 at a select field and a decimal field, each with and without a default value.
\<close>

theorem create_resolve_defaulting_witness:
  "(\<exists>f. select example_deps (string_select [Plain ''draft'', Plain ''published''] (Some ''draft''))
            example_meta = Inr f
        \<and> create_resolve f Undefined = Val (StringValue ''draft'')
        \<and> create_resolve f Null = Null
        \<and> create_resolve f (Val (StringValue ''published'')) = Val (StringValue ''published''))
   \<and> (\<exists>f. select example_deps (string_select [Plain ''draft'', Plain ''published''] None)
            example_meta = Inr f
        \<and> create_resolve f Undefined = Null)
   \<and> (\<exists>g. decimal example_deps (decimal_with_bounds None None (Some ''10'')) example_meta = Inr g
        \<and> create_resolve g Undefined = Val (Dec 10)
        \<and> create_resolve g Null = Null
        \<and> create_resolve g (Val (Dec 3)) = Val (Dec 3))
   \<and> (\<exists>g. decimal example_deps (decimal_with_bounds None None None) example_meta = Inr g
        \<and> create_resolve g Undefined = Null)"
proof -
  let ?c1 = "string_select [Plain ''draft'', Plain ''published''] (Some ''draft'')"
  let ?c2 = "string_select [Plain ''draft'', Plain ''published''] None"
  let ?d1 = "decimal_with_bounds None None (Some ''10'')"
  let ?d2 = "decimal_with_bounds None None None"
  have "\<exists>f. select example_deps ?c1 example_meta = Inr f"
    by (simp add: example_defs select_defs)
  then obtain f1 where f1: "select example_deps ?c1 example_meta = Inr f1" ..
  have "\<exists>f. select example_deps ?c2 example_meta = Inr f"
    by (simp add: example_defs select_defs)
  then obtain f2 where f2: "select example_deps ?c2 example_meta = Inr f2" ..
  have "\<exists>g. decimal example_deps ?d1 example_meta = Inr g"
    by (simp add: example_defs decimal_def Let_def isInteger_Num num_gt_def num_lt_def
          parse_if_defined_def parseDecimalValueOption_def isFinite_def)
  then obtain g1 where g1: "decimal example_deps ?d1 example_meta = Inr g1" ..
  have "\<exists>g. decimal example_deps ?d2 example_meta = Inr g"
    by (simp add: example_defs decimal_def Let_def isInteger_Num num_gt_def num_lt_def
          parse_if_defined_def parseDecimalValueOption_def isFinite_def)
  then obtain g2 where g2: "decimal example_deps ?d2 example_meta = Inr g2" ..
  from create_resolve_defaulting [of example_deps ?c1 example_meta f1 example_deps ?d1 example_meta g1]
    f1 g1
  have 1: "create_resolve f1 Undefined = Val (StringValue ''draft'')
        \<and> create_resolve f1 Null = Null
        \<and> create_resolve f1 (Val (StringValue ''published'')) = Val (StringValue ''published'')
        \<and> create_resolve g1 Undefined = Val (Dec 10)
        \<and> create_resolve g1 Null = Null
        \<and> create_resolve g1 (Val (Dec 3)) = Val (Dec 3)"
    by (simp add: example_defs select_defaultValue_def)
  from create_resolve_defaulting [of example_deps ?c2 example_meta f2 example_deps ?d2 example_meta g2]
    f2 g2
  have 2: "create_resolve f2 Undefined = Null \<and> create_resolve g2 Undefined = Null"
    by (simp add: example_defs select_defaultValue_def)
  from f1 f2 g1 g2 1 2 show ?thesis by blast
qed


section \<open>Properties of list access control\<close>

subsection \<open>Auxiliary facts\<close>


lemma returns_boolean_cases:
  "returns_boolean v \<Longrightarrow> v = ReturnsBool True \<or> v = ReturnsBool False"
  by (cases v) (auto simp: returns_boolean_def)

lemma check_operation_bool:
  "access_operation l op s = ReturnsBool b \<Longrightarrow> check_operation l s op p = Inr b"
  by (simp add: check_operation_def)

lemma check_operation_invalid:
  "\<not> returns_boolean (access_operation l op s) \<Longrightarrow>
     check_operation l s op p =
       Inl (AccessReturnError p [(operation_tag l op, typeof (access_operation l op s))])"
  by (cases "access_operation l op s") (simp_all add: check_operation_def returns_boolean_def)

lemma createOne_denied:
  "create_denied l s input \<Longrightarrow> createOne l s p input db = (db, denied_response p)"
  by (auto simp: create_denied_def createOne_def check_operation_def denied_response_def)

lemma updateOne_denied:
  "update_denied l s arg db \<Longrightarrow> updateOne l s p arg db = (db, denied_response p)"
  by (auto simp: update_denied_def updateOne_def check_operation_def denied_response_def
      split: option.splits)

lemma deleteOne_denied:
  "delete_denied l s ident db \<Longrightarrow> deleteOne l s p ident db = (db, denied_response p)"
  by (auto simp: delete_denied_def deleteOne_def check_operation_def denied_response_def
      split: option.splits)

lemma createOne_null_iff:
  "access_operation l OpCreate s = ReturnsBool b \<Longrightarrow>
     data (snd (createOne l s p input db)) = None \<longleftrightarrow> create_denied l s input"
  by (auto simp: create_denied_def createOne_def check_operation_def Let_def)

lemma updateOne_null_iff:
  "access_operation l OpUpdate s = ReturnsBool b \<Longrightarrow>
     data (snd (updateOne l s p arg db)) = None \<longleftrightarrow> update_denied l s arg db"
  by (auto simp: update_denied_def updateOne_def check_operation_def Let_def
      split: option.splits)

lemma deleteOne_null_iff:
  "access_operation l OpDelete s = ReturnsBool b \<Longrightarrow>
     data (snd (deleteOne l s p ident db)) = None \<longleftrightarrow> delete_denied l s ident db"
  by (auto simp: delete_denied_def deleteOne_def check_operation_def Let_def
      split: option.splits)

lemma createOne_shape: "one_error_if_null (createOne l s)"
  by (cases "access_operation l OpCreate s")
     (auto simp: one_error_if_null_def createOne_def check_operation_def Let_def error_path_def)

lemma updateOne_shape: "one_error_if_null (updateOne l s)"
  by (cases "access_operation l OpUpdate s")
     (auto simp: one_error_if_null_def updateOne_def check_operation_def Let_def error_path_def
      split: option.splits)

lemma deleteOne_shape: "one_error_if_null (deleteOne l s)"
  by (cases "access_operation l OpDelete s")
     (auto simp: one_error_if_null_def deleteOne_def check_operation_def Let_def error_path_def
      split: option.splits)

lemma filter_upt_Suc:
  "filter P [0..<Suc k] = (if P 0 then [0] else []) @ map Suc (filter (P \<circ> Suc) [0..<k])"
proof -
  have "[0..<Suc k] = 0 # map Suc [0..<k]"
    by (simp add: upt_conv_Cons map_Suc_upt del: upt_Suc)
  then show ?thesis by (simp add: filter_map del: upt_Suc)
qed

lemma many_shape:
  assumes "one_error_if_null single"
  shows "many single name n xs db = (db', ds, es) \<Longrightarrow>
           length ds = length xs \<and>
           map error_path es =
             map (\<lambda>i. [PathField name, Position (n + i)]) (filter (\<lambda>i. ds ! i = None) [0..<length ds])"
proof (induction xs arbitrary: n db db' ds es)
  case Nil
  then show ?case by simp
next
  case (Cons x xs)
  obtain db1 r where s1: "single [PathField name, Position n] x db = (db1, r)"
    by (cases "single [PathField name, Position n] x db") auto
  obtain db2 ds2 es2 where s2: "many single name (Suc n) xs db1 = (db2, ds2, es2)"
    by (cases "many single name (Suc n) xs db1") auto
  from Cons.prems s1 s2 have eqs: "db' = db2" "ds = data r # ds2" "es = errors r @ es2"
    by auto
  from Cons.IH [OF s2] have ih:
    "length ds2 = length xs"
    "map error_path es2 =
       map (\<lambda>i. [PathField name, Position (Suc n + i)]) (filter (\<lambda>i. ds2 ! i = None) [0..<length ds2])"
    by auto
  from assms s1 have r:
    "(data r = None \<and> (\<exists>e. errors r = [e] \<and> error_path e = [PathField name, Position n]))
     \<or> (data r \<noteq> None \<and> errors r = [])"
    unfolding one_error_if_null_def
    by (metis snd_conv)
  have f: "filter (\<lambda>i. (data r # ds2) ! i = None) [0..<Suc (length ds2)]
           = (if data r = None then [0] else [])
             @ map Suc (filter (\<lambda>i. ds2 ! i = None) [0..<length ds2])"
    by (simp add: filter_upt_Suc comp_def del: upt_Suc)
  have len: "length ds = length (x # xs)"
    by (simp add: eqs ih(1))
  have tl: "map (\<lambda>i. [PathField name, Position (n + i)])
              (map Suc (filter (\<lambda>i. ds2 ! i = None) [0..<length ds2]))
            = map error_path es2"
    by (simp add: ih(2) comp_def)
  have "map error_path es =
          map (\<lambda>i. [PathField name, Position (n + i)])
            (filter (\<lambda>i. ds ! i = None) [0..<length ds])"
  proof (cases "data r = None")
    case True
    with r obtain e where "errors r = [e]" "error_path e = [PathField name, Position n]" by auto
    with True show ?thesis
      unfolding eqs length_Cons f using tl by simp
  next
    case False
    with r have "errors r = []" by auto
    with False show ?thesis
      unfolding eqs length_Cons f using tl by simp
  qed
  with len show ?case by simp
qed

lemma many_nth:
  "i < length xs \<Longrightarrow> many single name n xs db = (db', ds, es) \<Longrightarrow>
     ds ! i = data (snd (single [PathField name, Position (n + i)] (xs ! i)
                          (fst (many single name n (take i xs) db))))"
proof (induction xs arbitrary: n db db' ds es i)
  case Nil
  then show ?case by simp
next
  case (Cons x xs)
  obtain db1 r where s1: "single [PathField name, Position n] x db = (db1, r)"
    by (cases "single [PathField name, Position n] x db") auto
  obtain db2 ds2 es2 where s2: "many single name (Suc n) xs db1 = (db2, ds2, es2)"
    by (cases "many single name (Suc n) xs db1") auto
  from Cons.prems s1 s2 have eqs: "ds = data r # ds2" by auto
  show ?case
  proof (cases i)
    case 0
    then show ?thesis using s1 by (simp add: eqs)
  next
    case (Suc j)
    with Cons.prems have j: "j < length xs" by simp
    from Cons.IH [OF j s2]
    have "ds2 ! j = data (snd (single [PathField name, Position (Suc n + j)] (xs ! j)
                                (fst (many single name (Suc n) (take j xs) db1))))" .
    then show ?thesis
      using s1 by (simp add: eqs Suc split: prod.splits)
  qed
qed


lemma many_errors:
  assumes "\<And>p x db e. e \<in> set (errors (snd (single p x db))) \<Longrightarrow> Q e"
  shows "many single name n xs db = (db', ds, es) \<Longrightarrow> e \<in> set es \<Longrightarrow> Q e"
proof (induction xs arbitrary: n db db' ds es)
  case Nil
  then show ?case by simp
next
  case (Cons x xs)
  obtain db1 r where s1: "single [PathField name, Position n] x db = (db1, r)"
    by (cases "single [PathField name, Position n] x db") auto
  obtain db2 ds2 es2 where s2: "many single name (Suc n) xs db1 = (db2, ds2, es2)"
    by (cases "many single name (Suc n) xs db1") auto
  from Cons.prems s1 s2 have "e \<in> set (errors r) \<or> e \<in> set es2" by auto
  then show ?case
  proof
    assume "e \<in> set (errors r)"
    with s1 have "e \<in> set (errors (snd (single [PathField name, Position n] x db)))" by simp
    then show ?thesis by (rule assms)
  next
    assume "e \<in> set es2"
    with Cons.IH [OF s2] show ?thesis .
  qed
qed

lemma many_response_conv:
  "many single name 0 xs db = (db', ds, es) \<Longrightarrow>
     many_response (many single name 0 xs db) = (db', \<lparr> data = Some ds, errors = es \<rparr>)"
  by (simp add: many_response_def)

lemma fst_many_response: "fst (many_response r) = fst r"
  by (cases r) (simp add: many_response_def)

text \<open>The shape of every multi mutation, from the shape of its single mutation.\<close>

lemma multi_shape:
  assumes sh: "one_error_if_null single"
  shows "\<exists>ds. data (snd (many_response (many single name 0 xs db))) = Some ds
            \<and> length ds = length xs
            \<and> map error_path (errors (snd (many_response (many single name 0 xs db))))
                = null_positions name ds
            \<and> (\<forall>i<length xs.
                  ds ! i = data (snd (single [PathField name, Position i] (xs ! i)
                                       (fst (many_response (many single name 0 (take i xs) db))))))"
proof -
  obtain db' ds es where m: "many single name 0 xs db = (db', ds, es)"
    by (cases "many single name 0 xs db") auto
  from many_shape [OF sh m] have
    l: "length ds = length xs" and
    e: "map error_path es = null_positions name ds"
    by (simp_all add: null_positions_def)
  have n: "ds ! i = data (snd (single [PathField name, Position i] (xs ! i)
                               (fst (many_response (many single name 0 (take i xs) db)))))"
    if "i < length xs" for i
    using many_nth [OF that m] by (simp add: fst_many_response)
  show ?thesis
    using l e n by (simp add: many_response_conv [OF m])
qed

lemma single_errors_denied:
  "access_operation l OpCreate s = ReturnsBool b \<Longrightarrow>
     e \<in> set (errors (snd (createOne l s p x db))) \<Longrightarrow> is_access_denied e"
  "access_operation l OpUpdate s = ReturnsBool b \<Longrightarrow>
     e \<in> set (errors (snd (updateOne l s p y db))) \<Longrightarrow> is_access_denied e"
  "access_operation l OpDelete s = ReturnsBool b \<Longrightarrow>
     e \<in> set (errors (snd (deleteOne l s p z db))) \<Longrightarrow> is_access_denied e"
  by (auto simp: createOne_def updateOne_def deleteOne_def check_operation_def Let_def
        is_access_denied_def split: if_splits option.splits)

lemma query_errors_not_denied:
  "e \<in> set (errors (findOne l s ident db)) \<Longrightarrow> \<not> is_access_denied e"
  "e \<in> set (errors (findMany l s wh db)) \<Longrightarrow> \<not> is_access_denied e"
  "e \<in> set (errors (count l s wh db)) \<Longrightarrow> \<not> is_access_denied e"
  by (cases "access_operation l OpQuery s";
      auto simp: findOne_def findMany_def count_def check_operation_def is_access_denied_def
           split: if_splits)+

lemma findOne_denied:
  assumes "i \<in> set db" "item_id i = ident"
    and "\<forall>j\<in>set db. item_id j = ident \<longrightarrow> query_denied l s j"
  shows "findOne l s ident db = \<lparr> data = None, errors = [] \<rparr>"
proof -
  from assms have d: "query_denied l s i" by blast
  show ?thesis
  proof (cases "access_operation l OpQuery s = ReturnsBool False")
    case True
    then show ?thesis by (simp add: findOne_def check_operation_def)
  next
    case False
    with d have t: "access_operation l OpQuery s = ReturnsBool True"
      by (simp add: query_denied_def)
    have "find (\<lambda>j. item_id j = ident \<and> matches (access_filter l OpQuery s) j) db = None"
      using assms(3) t by (auto simp: find_None_iff query_denied_def)
    with t show ?thesis by (simp add: findOne_def check_operation_def find_item_def)
  qed
qed

lemma findMany_filters:
  assumes "returns_boolean (access_operation l OpQuery s)"
  shows "findMany l s wh db
           = \<lparr> data = Some (filter (\<lambda>i. wh i \<and> \<not> query_denied l s i) db), errors = [] \<rparr>"
    and "count l s wh db
           = \<lparr> data = Some (length (filter (\<lambda>i. wh i \<and> \<not> query_denied l s i) db)), errors = [] \<rparr>"
  using returns_boolean_cases [OF assms]
  by (auto simp: findMany_def count_def check_operation_def query_denied_def)


subsection \<open>Access-denied outcomes\<close>

text \<open>
  Claim C2. A single mutation that is denied returns \<open>null\<close> data with one access denied
  error. A multi mutation returns a data array with one entry per input, \<open>null\<close> exactly
  for the denied entries (each judged on the items the earlier entries have left), and one
  error at the position of every \<open>null\<close> entry, all of them access denied errors.
  Queries never return an access denied error: a single-item query on a denied item
  returns \<open>null\<close> with no errors, a many-items query returns the items that are not
  denied, and a count query counts them.
\<close>

theorem access_denied_outcomes:
  "(create_denied l s input \<longrightarrow> snd (createOne l s p input db) = denied_response p)
   \<and> (update_denied l s arg db \<longrightarrow> snd (updateOne l s p arg db) = denied_response p)
   \<and> (delete_denied l s ident db \<longrightarrow> snd (deleteOne l s p ident db) = denied_response p)
   \<and> (\<exists>ds. data (snd (createMany l s inputs db)) = Some ds
          \<and> length ds = length inputs
          \<and> map error_path (errors (snd (createMany l s inputs db)))
              = null_positions (field_name l CreateMany) ds
          \<and> (returns_boolean (access_operation l OpCreate s) \<longrightarrow>
               (\<forall>i<length inputs. ds ! i = None \<longleftrightarrow> create_denied l s (inputs ! i))
               \<and> (\<forall>e\<in>set (errors (snd (createMany l s inputs db))). is_access_denied e)))
   \<and> (\<exists>ds. data (snd (updateMany l s args db)) = Some ds
          \<and> length ds = length args
          \<and> map error_path (errors (snd (updateMany l s args db)))
              = null_positions (field_name l UpdateMany) ds
          \<and> (returns_boolean (access_operation l OpUpdate s) \<longrightarrow>
               (\<forall>i<length args. ds ! i = None \<longleftrightarrow>
                   update_denied l s (args ! i) (fst (updateMany l s (take i args) db)))
               \<and> (\<forall>e\<in>set (errors (snd (updateMany l s args db))). is_access_denied e)))
   \<and> (\<exists>ds. data (snd (deleteMany l s idents db)) = Some ds
          \<and> length ds = length idents
          \<and> map error_path (errors (snd (deleteMany l s idents db)))
              = null_positions (field_name l DeleteMany) ds
          \<and> (returns_boolean (access_operation l OpDelete s) \<longrightarrow>
               (\<forall>i<length idents. ds ! i = None \<longleftrightarrow>
                   delete_denied l s (idents ! i) (fst (deleteMany l s (take i idents) db)))
               \<and> (\<forall>e\<in>set (errors (snd (deleteMany l s idents db))). is_access_denied e)))
   \<and> (\<forall>e\<in>set (errors (findOne l s ident db)). \<not> is_access_denied e)
   \<and> (\<forall>e\<in>set (errors (findMany l s wh db)). \<not> is_access_denied e)
   \<and> (\<forall>e\<in>set (errors (count l s wh db)). \<not> is_access_denied e)
   \<and> ((\<exists>i\<in>set db. item_id i = ident) \<and> (\<forall>i\<in>set db. item_id i = ident \<longrightarrow> query_denied l s i)
        \<longrightarrow> findOne l s ident db = \<lparr> data = None, errors = [] \<rparr>)
   \<and> (returns_boolean (access_operation l OpQuery s) \<longrightarrow>
         findMany l s wh db
           = \<lparr> data = Some (filter (\<lambda>i. wh i \<and> \<not> query_denied l s i) db), errors = [] \<rparr>
         \<and> count l s wh db
           = \<lparr> data = Some (length (filter (\<lambda>i. wh i \<and> \<not> query_denied l s i) db)),
               errors = [] \<rparr>)"
proof -
  have c1: "create_denied l s input \<longrightarrow> snd (createOne l s p input db) = denied_response p"
    by (simp add: createOne_denied)
  have c2: "update_denied l s arg db \<longrightarrow> snd (updateOne l s p arg db) = denied_response p"
    by (simp add: updateOne_denied)
  have c3: "delete_denied l s ident db \<longrightarrow> snd (deleteOne l s p ident db) = denied_response p"
    by (simp add: deleteOne_denied)
  have c4: "\<exists>ds. data (snd (createMany l s inputs db)) = Some ds
          \<and> length ds = length inputs
          \<and> map error_path (errors (snd (createMany l s inputs db)))
              = null_positions (field_name l CreateMany) ds
          \<and> (returns_boolean (access_operation l OpCreate s) \<longrightarrow>
               (\<forall>i<length inputs. ds ! i = None \<longleftrightarrow> create_denied l s (inputs ! i))
               \<and> (\<forall>e\<in>set (errors (snd (createMany l s inputs db))). is_access_denied e))"
  proof -
    from multi_shape [OF createOne_shape, of l s "field_name l CreateMany" inputs db]
    obtain ds where ds:
      "data (snd (createMany l s inputs db)) = Some ds"
      "length ds = length inputs"
      "map error_path (errors (snd (createMany l s inputs db)))
         = null_positions (field_name l CreateMany) ds"
      "\<forall>i<length inputs.
          ds ! i = data (snd (createOne l s [PathField (field_name l CreateMany), Position i]
                               (inputs ! i) (fst (createMany l s (take i inputs) db))))"
      unfolding createMany_def by blast
    have "(\<forall>i<length inputs. ds ! i = None \<longleftrightarrow> create_denied l s (inputs ! i))
          \<and> (\<forall>e\<in>set (errors (snd (createMany l s inputs db))). is_access_denied e)"
      if "returns_boolean (access_operation l OpCreate s)"
    proof -
      from returns_boolean_cases [OF that] obtain b
        where b: "access_operation l OpCreate s = ReturnsBool b" by blast
      have "\<forall>i<length inputs. ds ! i = None \<longleftrightarrow> create_denied l s (inputs ! i)"
        using ds(4) by (simp add: createOne_null_iff [OF b])
      moreover have "is_access_denied e"
        if e: "e \<in> set (errors (snd (createMany l s inputs db)))" for e
      proof -
        obtain db' ds' es' where
          m: "many (createOne l s) (field_name l CreateMany) 0 inputs db = (db', ds', es')"
          by (cases "many (createOne l s) (field_name l CreateMany) 0 inputs db") auto
        from e have "e \<in> set es'"
          by (simp add: createMany_def many_response_conv [OF m])
        with many_errors [of "createOne l s" is_access_denied, OF _ m] show ?thesis
          using single_errors_denied(1) [OF b] by blast
      qed
      ultimately show ?thesis by blast
    qed
    with ds(1,2,3) show ?thesis by blast
  qed
  have c5: "\<exists>ds. data (snd (updateMany l s args db)) = Some ds
          \<and> length ds = length args
          \<and> map error_path (errors (snd (updateMany l s args db)))
              = null_positions (field_name l UpdateMany) ds
          \<and> (returns_boolean (access_operation l OpUpdate s) \<longrightarrow>
               (\<forall>i<length args. ds ! i = None \<longleftrightarrow>
                   update_denied l s (args ! i) (fst (updateMany l s (take i args) db)))
               \<and> (\<forall>e\<in>set (errors (snd (updateMany l s args db))). is_access_denied e))"
  proof -
    from multi_shape [OF updateOne_shape, of l s "field_name l UpdateMany" args db]
    obtain ds where ds:
      "data (snd (updateMany l s args db)) = Some ds"
      "length ds = length args"
      "map error_path (errors (snd (updateMany l s args db)))
         = null_positions (field_name l UpdateMany) ds"
      "\<forall>i<length args.
          ds ! i = data (snd (updateOne l s [PathField (field_name l UpdateMany), Position i]
                               (args ! i) (fst (updateMany l s (take i args) db))))"
      unfolding updateMany_def by blast
    have "(\<forall>i<length args. ds ! i = None \<longleftrightarrow>
              update_denied l s (args ! i) (fst (updateMany l s (take i args) db)))
          \<and> (\<forall>e\<in>set (errors (snd (updateMany l s args db))). is_access_denied e)"
      if "returns_boolean (access_operation l OpUpdate s)"
    proof -
      from returns_boolean_cases [OF that] obtain b
        where b: "access_operation l OpUpdate s = ReturnsBool b" by blast
      have "\<forall>i<length args. ds ! i = None \<longleftrightarrow>
              update_denied l s (args ! i) (fst (updateMany l s (take i args) db))"
        using ds(4) by (simp add: updateOne_null_iff [OF b])
      moreover have "is_access_denied e"
        if e: "e \<in> set (errors (snd (updateMany l s args db)))" for e
      proof -
        obtain db' ds' es' where
          m: "many (updateOne l s) (field_name l UpdateMany) 0 args db = (db', ds', es')"
          by (cases "many (updateOne l s) (field_name l UpdateMany) 0 args db") auto
        from e have "e \<in> set es'"
          by (simp add: updateMany_def many_response_conv [OF m])
        with many_errors [of "updateOne l s" is_access_denied, OF _ m] show ?thesis
          using single_errors_denied(2) [OF b] by blast
      qed
      ultimately show ?thesis by blast
    qed
    with ds(1,2,3) show ?thesis by blast
  qed
  have c6: "\<exists>ds. data (snd (deleteMany l s idents db)) = Some ds
          \<and> length ds = length idents
          \<and> map error_path (errors (snd (deleteMany l s idents db)))
              = null_positions (field_name l DeleteMany) ds
          \<and> (returns_boolean (access_operation l OpDelete s) \<longrightarrow>
               (\<forall>i<length idents. ds ! i = None \<longleftrightarrow>
                   delete_denied l s (idents ! i) (fst (deleteMany l s (take i idents) db)))
               \<and> (\<forall>e\<in>set (errors (snd (deleteMany l s idents db))). is_access_denied e))"
  proof -
    from multi_shape [OF deleteOne_shape, of l s "field_name l DeleteMany" idents db]
    obtain ds where ds:
      "data (snd (deleteMany l s idents db)) = Some ds"
      "length ds = length idents"
      "map error_path (errors (snd (deleteMany l s idents db)))
         = null_positions (field_name l DeleteMany) ds"
      "\<forall>i<length idents.
          ds ! i = data (snd (deleteOne l s [PathField (field_name l DeleteMany), Position i]
                               (idents ! i) (fst (deleteMany l s (take i idents) db))))"
      unfolding deleteMany_def by blast
    have "(\<forall>i<length idents. ds ! i = None \<longleftrightarrow>
              delete_denied l s (idents ! i) (fst (deleteMany l s (take i idents) db)))
          \<and> (\<forall>e\<in>set (errors (snd (deleteMany l s idents db))). is_access_denied e)"
      if "returns_boolean (access_operation l OpDelete s)"
    proof -
      from returns_boolean_cases [OF that] obtain b
        where b: "access_operation l OpDelete s = ReturnsBool b" by blast
      have "\<forall>i<length idents. ds ! i = None \<longleftrightarrow>
              delete_denied l s (idents ! i) (fst (deleteMany l s (take i idents) db))"
        using ds(4) by (simp add: deleteOne_null_iff [OF b])
      moreover have "is_access_denied e"
        if e: "e \<in> set (errors (snd (deleteMany l s idents db)))" for e
      proof -
        obtain db' ds' es' where
          m: "many (deleteOne l s) (field_name l DeleteMany) 0 idents db = (db', ds', es')"
          by (cases "many (deleteOne l s) (field_name l DeleteMany) 0 idents db") auto
        from e have "e \<in> set es'"
          by (simp add: deleteMany_def many_response_conv [OF m])
        with many_errors [of "deleteOne l s" is_access_denied, OF _ m] show ?thesis
          using single_errors_denied(3) [OF b] by blast
      qed
      ultimately show ?thesis by blast
    qed
    with ds(1,2,3) show ?thesis by blast
  qed
  have c7: "\<forall>e\<in>set (errors (findOne l s ident db)). \<not> is_access_denied e"
    by (rule ballI) (rule query_errors_not_denied(1))
  have c8: "\<forall>e\<in>set (errors (findMany l s wh db)). \<not> is_access_denied e"
    by (rule ballI) (rule query_errors_not_denied(2))
  have c9: "\<forall>e\<in>set (errors (count l s wh db)). \<not> is_access_denied e"
    by (rule ballI) (rule query_errors_not_denied(3))
  have c10: "(\<exists>i\<in>set db. item_id i = ident) \<and> (\<forall>i\<in>set db. item_id i = ident \<longrightarrow> query_denied l s i)
        \<longrightarrow> findOne l s ident db = \<lparr> data = None, errors = [] \<rparr>"
  proof
    assume h: "(\<exists>i\<in>set db. item_id i = ident)
               \<and> (\<forall>i\<in>set db. item_id i = ident \<longrightarrow> query_denied l s i)"
    then obtain i where "i \<in> set db" "item_id i = ident" by blast
    with h show "findOne l s ident db = \<lparr> data = None, errors = [] \<rparr>"
      by (intro findOne_denied [of i]) simp_all
  qed
  have c11: "returns_boolean (access_operation l OpQuery s) \<longrightarrow>
         findMany l s wh db
           = \<lparr> data = Some (filter (\<lambda>i. wh i \<and> \<not> query_denied l s i) db), errors = [] \<rparr>
         \<and> count l s wh db
           = \<lparr> data = Some (length (filter (\<lambda>i. wh i \<and> \<not> query_denied l s i) db)),
               errors = [] \<rparr>"
    by (intro impI conjI findMany_filters)
  show ?thesis
    apply (rule conjI [OF c1])
    apply (rule conjI [OF c2])
    apply (rule conjI [OF c3])
    apply (rule conjI [OF c4])
    apply (rule conjI [OF c5])
    apply (rule conjI [OF c6])
    apply (rule conjI [OF c7])
    apply (rule conjI [OF c8])
    apply (rule conjI [OF c9])
    apply (rule conjI [OF c10])
    apply (rule c11)
    done
qed


subsection \<open>Mutations aborted by access control\<close>

text \<open>
  Claim C3. A create, update or delete mutation that fails its list-level access control
  (the operation-level function returns anything but \<open>true\<close>, the filtered lookup finds
  no item, or the item-level function returns \<open>false\<close>) returns \<open>null\<close> and leaves the
  items of the list as they were; so does every single mutation that returns an error.
\<close>

theorem denied_mutation_keeps_items:
  "(access_operation l OpCreate s \<noteq> ReturnsBool True \<or> \<not> access_item_create l s input
      \<longrightarrow> fst (createOne l s p input db) = db \<and> data (snd (createOne l s p input db)) = None)
   \<and> (access_operation l OpUpdate s \<noteq> ReturnsBool True
       \<or> find_item l s OpUpdate (fst arg) db = None
       \<or> (\<exists>old. find_item l s OpUpdate (fst arg) db = Some old
                 \<and> \<not> access_item_update l s (snd arg) old)
      \<longrightarrow> fst (updateOne l s p arg db) = db \<and> data (snd (updateOne l s p arg db)) = None)
   \<and> (access_operation l OpDelete s \<noteq> ReturnsBool True
       \<or> find_item l s OpDelete ident db = None
       \<or> (\<exists>old. find_item l s OpDelete ident db = Some old \<and> \<not> access_item_delete l s old)
      \<longrightarrow> fst (deleteOne l s p ident db) = db \<and> data (snd (deleteOne l s p ident db)) = None)
   \<and> (errors (snd (createOne l s p input db)) \<noteq> [] \<longrightarrow> fst (createOne l s p input db) = db)
   \<and> (errors (snd (updateOne l s p arg db)) \<noteq> [] \<longrightarrow> fst (updateOne l s p arg db) = db)
   \<and> (errors (snd (deleteOne l s p ident db)) \<noteq> [] \<longrightarrow> fst (deleteOne l s p ident db) = db)"
proof -
  have c: "access_operation l OpCreate s \<noteq> ReturnsBool True \<or> \<not> access_item_create l s input
      \<longrightarrow> fst (createOne l s p input db) = db \<and> data (snd (createOne l s p input db)) = None"
    by (cases "access_operation l OpCreate s")
       (auto simp: createOne_def check_operation_def Let_def)
  have u: "access_operation l OpUpdate s \<noteq> ReturnsBool True
       \<or> find_item l s OpUpdate (fst arg) db = None
       \<or> (\<exists>old. find_item l s OpUpdate (fst arg) db = Some old
                 \<and> \<not> access_item_update l s (snd arg) old)
      \<longrightarrow> fst (updateOne l s p arg db) = db \<and> data (snd (updateOne l s p arg db)) = None"
    by (cases "access_operation l OpUpdate s")
       (auto simp: updateOne_def check_operation_def Let_def split: option.splits)
  have d: "access_operation l OpDelete s \<noteq> ReturnsBool True
       \<or> find_item l s OpDelete ident db = None
       \<or> (\<exists>old. find_item l s OpDelete ident db = Some old \<and> \<not> access_item_delete l s old)
      \<longrightarrow> fst (deleteOne l s p ident db) = db \<and> data (snd (deleteOne l s p ident db)) = None"
    by (cases "access_operation l OpDelete s")
       (auto simp: deleteOne_def check_operation_def Let_def split: option.splits)
  have ce: "errors (snd (createOne l s p input db)) \<noteq> [] \<longrightarrow> fst (createOne l s p input db) = db"
    by (cases "access_operation l OpCreate s")
       (auto simp: createOne_def check_operation_def Let_def)
  have ue: "errors (snd (updateOne l s p arg db)) \<noteq> [] \<longrightarrow> fst (updateOne l s p arg db) = db"
    by (cases "access_operation l OpUpdate s")
       (auto simp: updateOne_def check_operation_def Let_def split: option.splits)
  have de: "errors (snd (deleteOne l s p ident db)) \<noteq> [] \<longrightarrow> fst (deleteOne l s p ident db) = db"
    by (cases "access_operation l OpDelete s")
       (auto simp: deleteOne_def check_operation_def Let_def split: option.splits)
  show ?thesis
    apply (rule conjI [OF c])
    apply (rule conjI [OF u])
    apply (rule conjI [OF d])
    apply (rule conjI [OF ce])
    apply (rule conjI [OF ue])
    apply (rule de)
    done
qed

subsection \<open>Invalid return values of operation-level functions\<close>

text \<open>
  Claim C4. For each of query, create, update and delete: when the operation-level
  function of the list returns a value that is not a boolean, the response has \<open>null\<close>
  data at the operation's path and one access-return error with the tag
  \<open><ListKey>.access.operation.<operation>\<close> and the type of the returned value, which
  is \<open>object\<close> for a filter object.
\<close>

theorem invalid_operation_return:
  "(\<not> returns_boolean (access_operation l OpQuery s) \<longrightarrow>
      findMany l s wh db =
        \<lparr> data = None,
          errors = [AccessReturnError [PathField (field_name l FindMany)]
                      [(key l @ ''.access.operation.query'', typeof (access_operation l OpQuery s))]] \<rparr>
      \<and> findOne l s ident db =
        \<lparr> data = None,
          errors = [AccessReturnError [PathField (field_name l FindOne)]
                      [(key l @ ''.access.operation.query'', typeof (access_operation l OpQuery s))]] \<rparr>
      \<and> count l s wh db =
        \<lparr> data = None,
          errors = [AccessReturnError [PathField (field_name l Count)]
                      [(key l @ ''.access.operation.query'', typeof (access_operation l OpQuery s))]] \<rparr>)
   \<and> (\<not> returns_boolean (access_operation l OpCreate s) \<longrightarrow>
      snd (createOne l s p input db) =
        \<lparr> data = None,
          errors = [AccessReturnError p
                      [(key l @ ''.access.operation.create'', typeof (access_operation l OpCreate s))]] \<rparr>)
   \<and> (\<not> returns_boolean (access_operation l OpUpdate s) \<longrightarrow>
      snd (updateOne l s p arg db) =
        \<lparr> data = None,
          errors = [AccessReturnError p
                      [(key l @ ''.access.operation.update'', typeof (access_operation l OpUpdate s))]] \<rparr>)
   \<and> (\<not> returns_boolean (access_operation l OpDelete s) \<longrightarrow>
      snd (deleteOne l s p ident db) =
        \<lparr> data = None,
          errors = [AccessReturnError p
                      [(key l @ ''.access.operation.delete'', typeof (access_operation l OpDelete s))]] \<rparr>)
   \<and> (\<forall>f. typeof (ReturnsFilter f) = ''object'')"
proof -
  have q: "\<not> returns_boolean (access_operation l OpQuery s) \<longrightarrow>
      findMany l s wh db =
        \<lparr> data = None,
          errors = [AccessReturnError [PathField (field_name l FindMany)]
                      [(key l @ ''.access.operation.query'', typeof (access_operation l OpQuery s))]] \<rparr>
      \<and> findOne l s ident db =
        \<lparr> data = None,
          errors = [AccessReturnError [PathField (field_name l FindOne)]
                      [(key l @ ''.access.operation.query'', typeof (access_operation l OpQuery s))]] \<rparr>
      \<and> count l s wh db =
        \<lparr> data = None,
          errors = [AccessReturnError [PathField (field_name l Count)]
                      [(key l @ ''.access.operation.query'', typeof (access_operation l OpQuery s))]] \<rparr>"
    by (simp add: findMany_def findOne_def count_def check_operation_invalid operation_tag_def
          op_name_def)
  have c: "\<not> returns_boolean (access_operation l OpCreate s) \<longrightarrow>
      snd (createOne l s p input db) =
        \<lparr> data = None,
          errors = [AccessReturnError p
                      [(key l @ ''.access.operation.create'', typeof (access_operation l OpCreate s))]] \<rparr>"
    by (simp add: createOne_def check_operation_invalid operation_tag_def op_name_def)
  have u: "\<not> returns_boolean (access_operation l OpUpdate s) \<longrightarrow>
      snd (updateOne l s p arg db) =
        \<lparr> data = None,
          errors = [AccessReturnError p
                      [(key l @ ''.access.operation.update'', typeof (access_operation l OpUpdate s))]] \<rparr>"
    by (simp add: updateOne_def check_operation_invalid operation_tag_def op_name_def)
  have d: "\<not> returns_boolean (access_operation l OpDelete s) \<longrightarrow>
      snd (deleteOne l s p ident db) =
        \<lparr> data = None,
          errors = [AccessReturnError p
                      [(key l @ ''.access.operation.delete'', typeof (access_operation l OpDelete s))]] \<rparr>"
    by (simp add: deleteOne_def check_operation_invalid operation_tag_def op_name_def)
  have t: "\<forall>f. typeof (ReturnsFilter f) = ''object''"
    by (simp add: typeof_def)
  show ?thesis
    apply (rule conjI [OF q])
    apply (rule conjI [OF c])
    apply (rule conjI [OF u])
    apply (rule conjI [OF d])
    apply (rule t)
    done
qed

section \<open>Properties of the authentication mutations\<close>

text \<open>
  Claim C6. A failed \<open>authenticateUserWithPassword\<close> returns the same response whether
  the identity is unknown or the password is wrong: the message "Authentication failed.",
  no GraphQL errors and no session cookie header. A failed \<open>redeemUserMagicAuthToken\<close>
  returns the same code \<open>FAILURE\<close> and message whether the identity is unknown or the token
  is wrong, and changes nothing.
\<close>

theorem authentication_failures_identical:
  "(unknown_identity users identity \<or> wrong_password users identity secret \<longrightarrow>
      authenticateUserWithPassword start_session users identity secret =
        \<lparr> body_data = AuthenticationFailure ''Authentication failed.'',
          body_errors = [], session_header = None \<rparr>)
   \<and> (unknown_identity users identity \<or> wrong_token users identity tok \<longrightarrow>
      redeemUserMagicAuthToken start_session mins now users identity tok =
        (users,
         \<lparr> body_data = RedeemFailure ''FAILURE'' ''Auth token redemption failed.'',
           body_errors = [], session_header = None \<rparr>))"
  by (auto simp: unknown_identity_def wrong_password_def wrong_token_def
        authenticateUserWithPassword_def redeemUserMagicAuthToken_def Let_def
      split: option.splits)


lemmas resolver_defs =
  createOne_def updateOne_def deleteOne_def findOne_def findMany_def count_def
  createMany_def updateMany_def deleteMany_def many_response_def
  check_operation_def operation_tag_def op_name_def typeof_def find_item_def matches_def
  next_id_def merge_fields_def Let_def

lemmas denial_defs =
  create_denied_def update_denied_def delete_denied_def query_denied_def denied_response_def
  returns_boolean_def null_positions_def error_path_def is_access_denied_def

lemmas list_examples =
  BadAccess_def Post_def good_item_def draft_post_def published_post_def

text \<open>
  C2 at a list where anonymous sessions may only query, queries see published items only
  and an item needs a title to be created.
\<close>

theorem access_denied_outcomes_witness:
  "snd (createOne Post False [PathField ''createPost''] [(''title'', ''C'')] [])
     = \<lparr> data = None, errors = [AccessDeniedError [PathField ''createPost'']] \<rparr>
   \<and> snd (deleteOne Post True [PathField ''deletePost''] 7 [draft_post])
     = \<lparr> data = None, errors = [AccessDeniedError [PathField ''deletePost'']] \<rparr>
   \<and> snd (createMany Post True [[(''title'', ''C'')], [(''body'', ''x'')]] [])
     = \<lparr> data = Some [Some \<lparr> item_id = 1, item_fields = [(''title'', ''C'')] \<rparr>, None],
         errors = [AccessDeniedError [PathField ''createPosts'', Position 1]] \<rparr>
   \<and> findOne Post False 1 [draft_post, published_post] = \<lparr> data = None, errors = [] \<rparr>
   \<and> findMany Post False (\<lambda>i. True) [draft_post, published_post]
     = \<lparr> data = Some [published_post], errors = [] \<rparr>
   \<and> count Post False (\<lambda>i. True) [draft_post, published_post]
     = \<lparr> data = Some 1, errors = [] \<rparr>"
proof -
  note t = access_denied_outcomes
             [of Post False "[(''title'', ''C'')]" "[PathField ''createPost'']" "[draft_post, published_post]"
                 "(1, [])" 1 "[]" "[]" "[]" "\<lambda>i. True"]
  have d: "create_denied Post False [(''title'', ''C'')]"
    by (simp add: create_denied_def Post_def)
  have q: "(\<exists>i\<in>set [draft_post, published_post]. item_id i = 1)
           \<and> (\<forall>i\<in>set [draft_post, published_post]. item_id i = 1 \<longrightarrow> query_denied Post False i)"
    by (simp add: query_denied_def Post_def draft_post_def published_post_def matches_def)
  have b: "returns_boolean (access_operation Post OpQuery False)"
    by (simp add: returns_boolean_def Post_def)
  have 1: "snd (createOne Post False [PathField ''createPost''] [(''title'', ''C'')] [])
     = \<lparr> data = None, errors = [AccessDeniedError [PathField ''createPost'']] \<rparr>"
    by (simp add: createOne_denied [OF d] denied_response_def)
  have 2: "snd (deleteOne Post True [PathField ''deletePost''] 7 [draft_post])
     = \<lparr> data = None, errors = [AccessDeniedError [PathField ''deletePost'']] \<rparr>"
    by (simp add: resolver_defs list_examples)
  have 3: "snd (createMany Post True [[(''title'', ''C'')], [(''body'', ''x'')]] [])
     = \<lparr> data = Some [Some \<lparr> item_id = 1, item_fields = [(''title'', ''C'')] \<rparr>, None],
         errors = [AccessDeniedError [PathField ''createPosts'', Position 1]] \<rparr>"
    by (simp add: resolver_defs list_examples)
  note t10 = t [THEN conjunct2, THEN conjunct2, THEN conjunct2, THEN conjunct2, THEN conjunct2, THEN conjunct2, THEN conjunct2, THEN conjunct2, THEN conjunct2, THEN conjunct1]
  note t11 = t [THEN conjunct2, THEN conjunct2, THEN conjunct2, THEN conjunct2, THEN conjunct2, THEN conjunct2, THEN conjunct2, THEN conjunct2, THEN conjunct2, THEN conjunct2]
  from t10 q have 4: "findOne Post False 1 [draft_post, published_post] = \<lparr> data = None, errors = [] \<rparr>"
    by (rule mp)
  from t11 b have 56:
    "findMany Post False (\<lambda>i. True) [draft_post, published_post]
       = \<lparr> data = Some (filter (\<lambda>i. True \<and> \<not> query_denied Post False i)
                            [draft_post, published_post]), errors = [] \<rparr>
     \<and> count Post False (\<lambda>i. True) [draft_post, published_post]
       = \<lparr> data = Some (length (filter (\<lambda>i. True \<and> \<not> query_denied Post False i)
                                    [draft_post, published_post])), errors = [] \<rparr>"
    by (rule mp)
  have f: "filter (\<lambda>i. True \<and> \<not> query_denied Post False i) [draft_post, published_post]
           = [published_post]"
    by (simp add: query_denied_def Post_def draft_post_def published_post_def matches_def)
  from 56 have 5: "findMany Post False (\<lambda>i. True) [draft_post, published_post]
     = \<lparr> data = Some [published_post], errors = [] \<rparr>"
    and 6: "count Post False (\<lambda>i. True) [draft_post, published_post]
     = \<lparr> data = Some 1, errors = [] \<rparr>"
    unfolding f by simp_all
  show ?thesis
    apply (rule conjI [OF 1])
    apply (rule conjI [OF 2])
    apply (rule conjI [OF 3])
    apply (rule conjI [OF 4])
    apply (rule conjI [OF 5])
    apply (rule 6)
    done
qed

text \<open>
  C3 at the three mutations of the tests on \<open>BadAccess\<close>, and at a delete that is denied
  to an anonymous session and carried out for a signed-in one.
\<close>

theorem denied_mutation_keeps_items_witness:
  "fst (createOne BadAccess () [PathField ''createBadAccess''] [(''name'', ''better'')] []) = []
   \<and> fst (updateOne BadAccess () [PathField ''updateBadAccess''] (1, [(''name'', ''better'')])
            [good_item]) = [good_item]
   \<and> fst (deleteOne BadAccess () [PathField ''deleteBadAccess''] 1 [good_item]) = [good_item]
   \<and> fst (deleteOne Post False [PathField ''deletePost''] 1 [draft_post]) = [draft_post]
   \<and> fst (deleteOne Post True [PathField ''deletePost''] 1 [draft_post]) = []"
proof -
  have b: "access_operation BadAccess op () \<noteq> ReturnsBool True" for op
    by (simp add: BadAccess_def)
  have p: "access_operation Post OpDelete False \<noteq> ReturnsBool True"
    by (simp add: Post_def)
  from denied_mutation_keeps_items
         [of BadAccess "()" "[(''name'', ''better'')]" "[PathField ''createBadAccess'']" "[]"] b
  have 1: "fst (createOne BadAccess () [PathField ''createBadAccess''] [(''name'', ''better'')] []) = []"
    by simp
  from denied_mutation_keeps_items
         [of BadAccess "()" _ "[PathField ''updateBadAccess'']" "[good_item]"
             "(1, [(''name'', ''better'')])"] b
  have 2: "fst (updateOne BadAccess () [PathField ''updateBadAccess''] (1, [(''name'', ''better'')])
            [good_item]) = [good_item]"
    by simp
  from denied_mutation_keeps_items
         [of BadAccess "()" _ "[PathField ''deleteBadAccess'']" "[good_item]" _ 1] b
  have 3: "fst (deleteOne BadAccess () [PathField ''deleteBadAccess''] 1 [good_item]) = [good_item]"
    by simp
  from denied_mutation_keeps_items
         [of Post False _ "[PathField ''deletePost'']" "[draft_post]" _ 1] p
  have 4: "fst (deleteOne Post False [PathField ''deletePost''] 1 [draft_post]) = [draft_post]"
    by simp
  have 5: "fst (deleteOne Post True [PathField ''deletePost''] 1 [draft_post]) = []"
    by (simp add: resolver_defs list_examples)
  show ?thesis
    apply (rule conjI [OF 1])
    apply (rule conjI [OF 2])
    apply (rule conjI [OF 3])
    apply (rule conjI [OF 4])
    apply (rule 5)
    done
qed

text \<open>C4 at the four requests of the tests on \<open>BadAccess\<close>.\<close>

theorem invalid_operation_return_witness:
  "findMany BadAccess () (\<lambda>i. True) []
     = \<lparr> data = None,
         errors = [AccessReturnError [PathField ''badAccesses'']
                     [(''BadAccess.access.operation.query'', ''object'')]] \<rparr>
   \<and> snd (createOne BadAccess () [PathField ''createBadAccess''] [(''name'', ''better'')] [])
     = \<lparr> data = None,
         errors = [AccessReturnError [PathField ''createBadAccess'']
                     [(''BadAccess.access.operation.create'', ''object'')]] \<rparr>
   \<and> snd (updateOne BadAccess () [PathField ''updateBadAccess''] (1, [(''name'', ''better'')])
            [good_item])
     = \<lparr> data = None,
         errors = [AccessReturnError [PathField ''updateBadAccess'']
                     [(''BadAccess.access.operation.update'', ''object'')]] \<rparr>
   \<and> snd (deleteOne BadAccess () [PathField ''deleteBadAccess''] 1 [good_item])
     = \<lparr> data = None,
         errors = [AccessReturnError [PathField ''deleteBadAccess'']
                     [(''BadAccess.access.operation.delete'', ''object'')]] \<rparr>"
proof -
  have b: "\<not> returns_boolean (access_operation BadAccess op ())" for op
    by (simp add: BadAccess_def returns_boolean_def)
  have k: "key BadAccess = ''BadAccess''" "field_name BadAccess FindMany = ''badAccesses''"
    "typeof (access_operation BadAccess op ()) = ''object''" for op
    by (simp_all add: BadAccess_def typeof_def)
  from invalid_operation_return [of BadAccess "()" "\<lambda>i. True" "[]"] b
  have 1: "findMany BadAccess () (\<lambda>i. True) []
     = \<lparr> data = None,
         errors = [AccessReturnError [PathField ''badAccesses'']
                     [(''BadAccess.access.operation.query'', ''object'')]] \<rparr>"
    by (simp add: k)
  from invalid_operation_return
         [of BadAccess "()" _ "[]" _ "[PathField ''createBadAccess'']" "[(''name'', ''better'')]"] b
  have 2: "snd (createOne BadAccess () [PathField ''createBadAccess''] [(''name'', ''better'')] [])
     = \<lparr> data = None,
         errors = [AccessReturnError [PathField ''createBadAccess'']
                     [(''BadAccess.access.operation.create'', ''object'')]] \<rparr>"
    by (simp add: k)
  from invalid_operation_return
         [of BadAccess "()" _ "[good_item]" 1 "[PathField ''updateBadAccess'']" _
             "(1, [(''name'', ''better'')])"] b
  have 3: "snd (updateOne BadAccess () [PathField ''updateBadAccess''] (1, [(''name'', ''better'')])
            [good_item])
     = \<lparr> data = None,
         errors = [AccessReturnError [PathField ''updateBadAccess'']
                     [(''BadAccess.access.operation.update'', ''object'')]] \<rparr>"
    by (simp add: k)
  from invalid_operation_return
         [of BadAccess "()" _ "[good_item]" 1 "[PathField ''deleteBadAccess'']"] b
  have 4: "snd (deleteOne BadAccess () [PathField ''deleteBadAccess''] 1 [good_item])
     = \<lparr> data = None,
         errors = [AccessReturnError [PathField ''deleteBadAccess'']
                     [(''BadAccess.access.operation.delete'', ''object'')]] \<rparr>"
    by (simp add: k)
  show ?thesis
    apply (rule conjI [OF 1])
    apply (rule conjI [OF 2])
    apply (rule conjI [OF 3])
    apply (rule 4)
    done
qed

text \<open>C6 at the failing requests of the tests on the seeded users.\<close>

theorem authentication_failures_identical_witness:
  "authenticateUserWithPassword example_session seeded_users ''boris@keystone.com'' ''incorrectbattery''
     = authenticateUserWithPassword example_session seeded_users ''bort@keystone.com'' ''correctbattery''
   \<and> authenticateUserWithPassword example_session seeded_users ''bort@keystone.com'' ''correctbattery''
     = \<lparr> body_data = AuthenticationFailure ''Authentication failed.'',
         body_errors = [], session_header = None \<rparr>
   \<and> snd (redeemUserMagicAuthToken example_session 60 1000 seeded_users ''boris@keystone.com'' ''BAD TOKEN'')
     = snd (redeemUserMagicAuthToken example_session 60 1000 seeded_users ''missing@keystone.com'' ''BAD TOKEN'')
   \<and> snd (redeemUserMagicAuthToken example_session 60 1000 seeded_users ''missing@keystone.com'' ''BAD TOKEN'')
     = \<lparr> body_data = RedeemFailure ''FAILURE'' ''Auth token redemption failed.'',
         body_errors = [], session_header = None \<rparr>"
proof -
  have u: "unknown_identity seeded_users ''bort@keystone.com''"
    "unknown_identity seeded_users ''missing@keystone.com''"
    by (simp_all add: unknown_identity_def find_user_def seeded_users_def)
  have w: "wrong_password seeded_users ''boris@keystone.com'' ''incorrectbattery''"
    "wrong_token seeded_users ''boris@keystone.com'' ''BAD TOKEN''"
    by (simp_all add: wrong_password_def wrong_token_def find_user_def seeded_users_def)
  from authentication_failures_identical
         [of seeded_users "''boris@keystone.com''" "''incorrectbattery''" example_session "''BAD TOKEN''" 60 1000]
       w
  have 1: "authenticateUserWithPassword example_session seeded_users ''boris@keystone.com'' ''incorrectbattery''
      = \<lparr> body_data = AuthenticationFailure ''Authentication failed.'',
          body_errors = [], session_header = None \<rparr>"
    and 2: "snd (redeemUserMagicAuthToken example_session 60 1000 seeded_users ''boris@keystone.com'' ''BAD TOKEN'')
      = \<lparr> body_data = RedeemFailure ''FAILURE'' ''Auth token redemption failed.'',
          body_errors = [], session_header = None \<rparr>"
    by simp_all
  from authentication_failures_identical
         [of seeded_users "''bort@keystone.com''" "''correctbattery''" example_session "''BAD TOKEN''" 60 1000]
       u
  have 3: "authenticateUserWithPassword example_session seeded_users ''bort@keystone.com'' ''correctbattery''
      = \<lparr> body_data = AuthenticationFailure ''Authentication failed.'',
          body_errors = [], session_header = None \<rparr>"
    by simp
  from authentication_failures_identical
         [of seeded_users "''missing@keystone.com''" "''x''" example_session "''BAD TOKEN''" 60 1000]
       u
  have 4: "snd (redeemUserMagicAuthToken example_session 60 1000 seeded_users ''missing@keystone.com'' ''BAD TOKEN'')
      = \<lparr> body_data = RedeemFailure ''FAILURE'' ''Auth token redemption failed.'',
          body_errors = [], session_header = None \<rparr>"
    by simp
  show ?thesis
    unfolding 1 2 3 4 by simp
qed

end
